theory Spec2Isabelle
  imports Main
begin

section \<open>Values, outcomes and the base logger\<close>

text \<open>
  The request pipeline of \<^verbatim>\<open>web-clean\<close> (packages \<^verbatim>\<open>infra/web\<close> and \<^verbatim>\<open>repository\<close>)
  is embedded as functions that pass the state explicitly.  A Go function that may panic
  returns an \<open>outcome\<close> next to the state it leaves behind: state changes made before a
  panic stay, as they do in Go.

  Go's \<^verbatim>\<open>any\<close> is the datatype \<open>any\<close>.  \<open>ContextPtr\<close> is a value of dynamic type
  \<^verbatim>\<open>*web.Context\<close> (\<open>None\<close> the nil pointer of that type); \<open>nil\<close> is the nil interface;
  \<open>Seq xs\<close> is a slice that is not nil (\<open>Seq []\<close> the empty one) and \<open>NilSlice\<close> the nil
  slice of type \<^verbatim>\<open>[]interface{}\<close>, which \<^verbatim>\<open>encoding/json\<close> writes as \<^verbatim>\<open>null\<close> where it writes
  the empty slice as \<^verbatim>\<open>[]\<close>; \<open>Unsupported\<close> stands for the Go values \<^verbatim>\<open>encoding/json\<close>
  cannot serialise (channels, functions, NaN).
\<close>

datatype domain_Log = zapLogger | webLogger_ptr

record Context =
  Database :: nat
  Log :: domain_Log

datatype any =
    nil
  | Str string
  | Num int
  | Seq "any list"
  | NilSlice
  | Err string
  | Dict "(string \<times> any) list"
  | ContextPtr "Context option"
  | Unsupported nat

datatype 'a outcome = Returns 'a | Panics any

text \<open>
  \<^verbatim>\<open>domain.Log\<close> is an interface whose implementation lives outside the repository
  (\<^verbatim>\<open>go.uber.org/zap\<close> behind \<^verbatim>\<open>infra/log\<close>).  Its behaviour is a parameter: for a method
  name and the arguments passed, whether the call returns or panics.  What the logger has
  been asked to emit is recorded as a list of calls.
\<close>

text \<open>
  A variadic parameter \<^verbatim>\<open>args ...interface{}\<close> is a slice.  \<open>None\<close> is the nil slice, which
  a call that passes no variadic argument gives; \<open>Some xs\<close> is a slice that is not nil,
  which a call that passes the values \<open>xs\<close> gives (\<open>Some []\<close> arises from a call
  \<^verbatim>\<open>f(s...)\<close> with an empty slice \<^verbatim>\<open>s\<close> that is not nil).  \<open>passed\<close> are the values the slice
  holds, and \<open>slice_value\<close> is the slice as one value of type \<^verbatim>\<open>interface{}\<close>.

  The base logger is given the values passed to it, after the template or message for the
  format-string and keyed-pairs methods.
\<close>

type_synonym variadic = "any list option"

fun passed :: "variadic \<Rightarrow> any list" where
  "passed None = []"
| "passed (Some xs) = xs"

fun slice_value :: "variadic \<Rightarrow> any" where
  "slice_value None = NilSlice"
| "slice_value (Some xs) = Seq xs"

type_synonym log_calls = "(string \<times> any list) list"

type_synonym base_logger = "string \<Rightarrow> any list \<Rightarrow> unit outcome"

definition call_Log :: "base_logger \<Rightarrow> string \<Rightarrow> any list \<Rightarrow> log_calls \<Rightarrow> unit outcome \<times> log_calls" where
  "call_Log L m args emitted = (L m args, emitted @ [(m, args)])"

section \<open>The Request Log Collector (infra/web/log\_persist.go)\<close>

record Log =
  Level :: string
  Msg :: string

text \<open>
  \<open>inner\<close> holds the calls the wrapped base logger has received, \<open>logs\<close> is the buffer.
  The field \<^verbatim>\<open>context\<close> of the Go struct is never read and is left out.
\<close>

record webLog =
  inner :: log_calls
  logs :: "Log list"

text \<open>
  \<^verbatim>\<open>json.Marshal\<close> and \<^verbatim>\<open>fmt.Sprintf\<close> are parameters (\<open>Inl\<close> is the error of
  \<^verbatim>\<open>json.Marshal\<close>).  The format string of the fallback message is the source's literal,
  written as its UTF-8 bytes.  \<^verbatim>\<open>appendToLogs\<close> serialises its variadic parameter as the
  slice it is.  The plain methods hand their own slice on (\<^verbatim>\<open>args...\<close>); the format-string
  and keyed-pairs methods pass two values, the template or message and their slice as one
  value, so \<^verbatim>\<open>appendToLogs\<close> gets a slice of length two that is not nil.
\<close>

type_synonym json_Marshal = "any \<Rightarrow> string + string"

type_synonym fmt_Sprintf = "string \<Rightarrow> any list \<Rightarrow> string"

definition serialize_error_format :: string where
  "serialize_error_format =
     [CHR 0xE5, CHR 0xBA, CHR 0x8F, CHR 0xE5, CHR 0x88, CHR 0x97, CHR 0xE5, CHR 0x8C, CHR 0x96,
      CHR 0xE9, CHR 0x94, CHR 0x99, CHR 0xE8, CHR 0xAF, CHR 0xAF] @ '': %v, '' @
     [CHR 0xE5, CHR 0x8E, CHR 0x9F, CHR 0xE5, CHR 0xA7, CHR 0x8B, CHR 0xE5, CHR 0x8F, CHR 0x82,
      CHR 0xE6, CHR 0x95, CHR 0xB0] @ '': %v''"

definition appendToLogs ::
  "json_Marshal \<Rightarrow> fmt_Sprintf \<Rightarrow> string \<Rightarrow> variadic \<Rightarrow> webLog \<Rightarrow> webLog" where
  "appendToLogs Marshal Sprintf level args w =
     (let msg = (case Marshal (slice_value args) of
                   Inl err \<Rightarrow> Sprintf serialize_error_format [Err err, slice_value args]
                 | Inr jsonBytes \<Rightarrow> jsonBytes)
      in w\<lparr>logs := logs w @ [\<lparr>Level = level, Msg = msg\<rparr>]\<rparr>)"

text \<open>
  Every method forwards to the base logger first and appends to the buffer only when that
  call has returned: \<open>forward\<close> is the statement \<^verbatim>\<open>w.inner.M(...)\<close>.
\<close>

definition forward :: "base_logger \<Rightarrow> string \<Rightarrow> any list \<Rightarrow> (webLog \<Rightarrow> webLog) \<Rightarrow> webLog \<Rightarrow> unit outcome \<times> webLog" where
  "forward L m args k w =
     (case call_Log L m args (inner w) of
        (Panics v, emitted) \<Rightarrow> (Panics v, w\<lparr>inner := emitted\<rparr>)
      | (Returns u, emitted) \<Rightarrow> (Returns (), k (w\<lparr>inner := emitted\<rparr>)))"

definition Debug where
  "Debug L Marshal Sprintf args =
     forward L ''Debug'' (passed args) (appendToLogs Marshal Sprintf ''DEBUG'' args)"

definition Info where
  "Info L Marshal Sprintf args =
     forward L ''Info'' (passed args) (appendToLogs Marshal Sprintf ''INFO'' args)"

definition Warn where
  "Warn L Marshal Sprintf args =
     forward L ''Warn'' (passed args) (appendToLogs Marshal Sprintf ''WARN'' args)"

definition Error where
  "Error L Marshal Sprintf args =
     forward L ''Error'' (passed args) (appendToLogs Marshal Sprintf ''ERROR'' args)"

definition DPanic where
  "DPanic L Marshal Sprintf args =
     forward L ''DPanic'' (passed args) (appendToLogs Marshal Sprintf ''DPANIC'' args)"

definition Panic where
  "Panic L Marshal Sprintf args =
     forward L ''Panic'' (passed args) (appendToLogs Marshal Sprintf ''PANIC'' args)"

definition Fatal where
  "Fatal L Marshal Sprintf args =
     forward L ''Fatal'' (passed args) (appendToLogs Marshal Sprintf ''FATAL'' args)"

definition Debugf where
  "Debugf L Marshal Sprintf template args =
     forward L ''Debugf'' (Str template # passed args)
       (appendToLogs Marshal Sprintf ''DEBUG'' (Some [Str template, slice_value args]))"

definition Infof where
  "Infof L Marshal Sprintf template args =
     forward L ''Infof'' (Str template # passed args)
       (appendToLogs Marshal Sprintf ''INFO'' (Some [Str template, slice_value args]))"

definition Warnf where
  "Warnf L Marshal Sprintf template args =
     forward L ''Warnf'' (Str template # passed args)
       (appendToLogs Marshal Sprintf ''WARN'' (Some [Str template, slice_value args]))"

definition Errorf where
  "Errorf L Marshal Sprintf template args =
     forward L ''Errorf'' (Str template # passed args)
       (appendToLogs Marshal Sprintf ''ERROR'' (Some [Str template, slice_value args]))"

definition DPanicf where
  "DPanicf L Marshal Sprintf template args =
     forward L ''DPanicf'' (Str template # passed args)
       (appendToLogs Marshal Sprintf ''DPANIC'' (Some [Str template, slice_value args]))"

definition Panicf where
  "Panicf L Marshal Sprintf template args =
     forward L ''Panicf'' (Str template # passed args)
       (appendToLogs Marshal Sprintf ''PANIC'' (Some [Str template, slice_value args]))"

definition Fatalf where
  "Fatalf L Marshal Sprintf template args =
     forward L ''Fatalf'' (Str template # passed args)
       (appendToLogs Marshal Sprintf ''FATAL'' (Some [Str template, slice_value args]))"

definition Debugw where
  "Debugw L Marshal Sprintf msg keysAndValues =
     forward L ''Debugw'' (Str msg # passed keysAndValues)
       (appendToLogs Marshal Sprintf ''DEBUG'' (Some [Str msg, slice_value keysAndValues]))"

definition Infow where
  "Infow L Marshal Sprintf msg keysAndValues =
     forward L ''Infow'' (Str msg # passed keysAndValues)
       (appendToLogs Marshal Sprintf ''INFO'' (Some [Str msg, slice_value keysAndValues]))"

definition Warnw where
  "Warnw L Marshal Sprintf msg keysAndValues =
     forward L ''Warnw'' (Str msg # passed keysAndValues)
       (appendToLogs Marshal Sprintf ''WARN'' (Some [Str msg, slice_value keysAndValues]))"

definition Errorw where
  "Errorw L Marshal Sprintf msg keysAndValues =
     forward L ''Errorw'' (Str msg # passed keysAndValues)
       (appendToLogs Marshal Sprintf ''ERROR'' (Some [Str msg, slice_value keysAndValues]))"

definition DPanicw where
  "DPanicw L Marshal Sprintf msg keysAndValues =
     forward L ''DPanicw'' (Str msg # passed keysAndValues)
       (appendToLogs Marshal Sprintf ''DPANIC'' (Some [Str msg, slice_value keysAndValues]))"

definition Panicw where
  "Panicw L Marshal Sprintf msg keysAndValues =
     forward L ''Panicw'' (Str msg # passed keysAndValues)
       (appendToLogs Marshal Sprintf ''PANIC'' (Some [Str msg, slice_value keysAndValues]))"

definition Fatalw where
  "Fatalw L Marshal Sprintf msg keysAndValues =
     forward L ''Fatalw'' (Str msg # passed keysAndValues)
       (appendToLogs Marshal Sprintf ''FATAL'' (Some [Str msg, slice_value keysAndValues]))"

text \<open>
  A logging call is one of the 21 methods with its arguments; \<open>invoke\<close> dispatches it.
  \<open>log_all\<close> is a caller that makes the calls of a list one after the other: a call
  that panics unwinds the caller, so the calls after it are not made.
\<close>

datatype level = DEBUG | INFO | WARN | ERROR | DPANIC | PANIC | FATAL

datatype log_call =
    Plain level variadic
  | Templated level string variadic
  | Keyed level string variadic

fun level_name :: "level \<Rightarrow> string" where
  "level_name DEBUG = ''DEBUG''"
| "level_name INFO = ''INFO''"
| "level_name WARN = ''WARN''"
| "level_name ERROR = ''ERROR''"
| "level_name DPANIC = ''DPANIC''"
| "level_name PANIC = ''PANIC''"
| "level_name FATAL = ''FATAL''"

fun level_of :: "log_call \<Rightarrow> level" where
  "level_of (Plain lv args) = lv"
| "level_of (Templated lv template args) = lv"
| "level_of (Keyed lv msg keysAndValues) = lv"

fun invoke :: "base_logger \<Rightarrow> json_Marshal \<Rightarrow> fmt_Sprintf \<Rightarrow> log_call \<Rightarrow> webLog \<Rightarrow> unit outcome \<times> webLog" where
  "invoke L M S (Plain DEBUG args) = Debug L M S args"
| "invoke L M S (Plain INFO args) = Info L M S args"
| "invoke L M S (Plain WARN args) = Warn L M S args"
| "invoke L M S (Plain ERROR args) = Error L M S args"
| "invoke L M S (Plain DPANIC args) = DPanic L M S args"
| "invoke L M S (Plain PANIC args) = Panic L M S args"
| "invoke L M S (Plain FATAL args) = Fatal L M S args"
| "invoke L M S (Templated DEBUG template args) = Debugf L M S template args"
| "invoke L M S (Templated INFO template args) = Infof L M S template args"
| "invoke L M S (Templated WARN template args) = Warnf L M S template args"
| "invoke L M S (Templated ERROR template args) = Errorf L M S template args"
| "invoke L M S (Templated DPANIC template args) = DPanicf L M S template args"
| "invoke L M S (Templated PANIC template args) = Panicf L M S template args"
| "invoke L M S (Templated FATAL template args) = Fatalf L M S template args"
| "invoke L M S (Keyed DEBUG msg keysAndValues) = Debugw L M S msg keysAndValues"
| "invoke L M S (Keyed INFO msg keysAndValues) = Infow L M S msg keysAndValues"
| "invoke L M S (Keyed WARN msg keysAndValues) = Warnw L M S msg keysAndValues"
| "invoke L M S (Keyed ERROR msg keysAndValues) = Errorw L M S msg keysAndValues"
| "invoke L M S (Keyed DPANIC msg keysAndValues) = DPanicw L M S msg keysAndValues"
| "invoke L M S (Keyed PANIC msg keysAndValues) = Panicw L M S msg keysAndValues"
| "invoke L M S (Keyed FATAL msg keysAndValues) = Fatalw L M S msg keysAndValues"

fun log_all :: "base_logger \<Rightarrow> json_Marshal \<Rightarrow> fmt_Sprintf \<Rightarrow> log_call list \<Rightarrow> webLog \<Rightarrow> unit outcome \<times> webLog" where
  "log_all L M S [] w = (Returns (), w)"
| "log_all L M S (c # cs) w =
     (case invoke L M S c w of
        (Panics v, w') \<Rightarrow> (Panics v, w')
      | (Returns u, w') \<Rightarrow> log_all L M S cs w')"

section \<open>The request and the services behind it\<close>

text \<open>
  \<open>gin_Context\<close> holds what the pipeline reads and writes of \<^verbatim>\<open>*gin.Context\<close>: the request
  line, the client address \<^verbatim>\<open>ClientIP()\<close> gives, the header lookup \<^verbatim>\<open>GetHeader\<close> (the
  empty string for an absent header), the request-scoped slots \<^verbatim>\<open>Keys\<close>, the errors
  recorded with \<^verbatim>\<open>c.Error\<close>, and the responses written with \<^verbatim>\<open>c.JSON\<close>.
\<close>

record gin_Context =
  Request_Method :: string
  Request_URL :: string
  Request_URL_Path :: string
  ClientIP :: string
  Header :: "string \<Rightarrow> string"
  Keys :: "string \<rightharpoonup> any"
  Errors :: "string list"
  Written :: "(nat \<times> any) list"

definition c_GetHeader :: "string \<Rightarrow> gin_Context \<Rightarrow> string" where
  "c_GetHeader key c = Header c key"

definition c_Set :: "string \<Rightarrow> any \<Rightarrow> gin_Context \<Rightarrow> gin_Context" where
  "c_Set key v c = c\<lparr>Keys := (Keys c)(key \<mapsto> v)\<rparr>"

definition c_Get :: "string \<Rightarrow> gin_Context \<Rightarrow> any \<times> bool" where
  "c_Get key c = (case Keys c key of None \<Rightarrow> (nil, False) | Some v \<Rightarrow> (v, True))"

definition c_Error :: "string \<Rightarrow> gin_Context \<Rightarrow> gin_Context" where
  "c_Error err c = c\<lparr>Errors := Errors c @ [err]\<rparr>"

definition c_JSON :: "nat \<Rightarrow> any \<Rightarrow> gin_Context \<Rightarrow> gin_Context" where
  "c_JSON code obj c = c\<lparr>Written := Written c @ [(code, obj)]\<rparr>"

text \<open>The ErrorReport (\<^verbatim>\<open>web.Errors\<close>) and the two tables of the store.\<close>

record web_Errors =
  Stack :: any
  Method :: string
  URL :: string
  Path :: string
  IP :: string
  RequestID :: string

datatype row = ErrorModel web_Errors | LogsModel "Log list"

text \<open>
  \<open>infra\<close> is what the persisters reach: the output of the base logger
  (\<^verbatim>\<open>infra.Context.Log\<close>), the rows of the store, and the file system (directories made,
  files by path with their contents).
\<close>

record infra =
  emitted :: log_calls
  rows :: "row list"
  dirs :: "string set"
  files :: "string \<rightharpoonup> string"

text \<open>
  \<open>world\<close> is the state one request runs in.  \<open>webLogger_logs\<close> is the buffer of the
  request's \<^verbatim>\<open>webLog\<close>, whose \<open>inner\<close> is the one base logger of \<open>infra\<close>.
  \<open>logs_received\<close> and \<open>errors_received\<close> record the arguments of every call made to
  the two persister interfaces; \<open>id_seed\<close> is the state of the identifier generator.
\<close>

record world =
  gin :: gin_Context
  webLogger_logs :: "Log list"
  infra :: infra
  logs_received :: "Log list list"
  errors_received :: "web_Errors list"
  id_seed :: nat

type_synonym stage = "world \<Rightarrow> unit outcome \<times> world"

text \<open>
  A business handler reaches the \<^verbatim>\<open>*gin.Context\<close> and, through the Request Context, the
  request's \<^verbatim>\<open>webLog\<close>; \<open>business\<close> runs it in the world.  An implementation of a
  persister interface reaches \<open>infra\<close>; \<open>persists_errors\<close> and \<open>persists_logs\<close> are the
  calls \<^verbatim>\<open>persistent.Persist(errors)\<close> and \<^verbatim>\<open>webLogPersister.Persist(logs)\<close>, recorded.
\<close>

record handler_state =
  hctx :: gin_Context
  hlog :: webLog

type_synonym handler = "handler_state \<Rightarrow> unit outcome \<times> handler_state"

definition handler_view :: "world \<Rightarrow> handler_state" where
  "handler_view w = \<lparr>hctx = gin w, hlog = \<lparr>inner = emitted (infra w), logs = webLogger_logs w\<rparr>\<rparr>"

definition business :: "handler \<Rightarrow> stage" where
  "business h w =
     (case h (handler_view w) of
        (r, s) \<Rightarrow> (r, w\<lparr>gin := hctx s,
                        webLogger_logs := logs (hlog s),
                        infra := (infra w)\<lparr>emitted := inner (hlog s)\<rparr>\<rparr>))"

type_synonym ErrorStackPersister = "web_Errors \<Rightarrow> infra \<Rightarrow> unit outcome \<times> infra"

type_synonym LogPersister = "Log list \<Rightarrow> infra \<Rightarrow> string option outcome \<times> infra"

definition persists_errors :: "ErrorStackPersister \<Rightarrow> web_Errors \<Rightarrow> world \<Rightarrow> unit outcome \<times> world" where
  "persists_errors P errors w =
     (case P errors (infra w) of
        (r, s) \<Rightarrow> (r, w\<lparr>infra := s, errors_received := errors_received w @ [errors]\<rparr>))"

definition persists_logs :: "LogPersister \<Rightarrow> Log list \<Rightarrow> world \<Rightarrow> string option outcome \<times> world" where
  "persists_logs P ls w =
     (case P ls (infra w) of
        (r, s) \<Rightarrow> (r, w\<lparr>infra := s, logs_received := logs_received w @ [ls]\<rparr>))"

section \<open>The pipeline stages (infra/web)\<close>

text \<open>
  A stage takes as \<open>next\<close> the rest of the chain: \<^verbatim>\<open>context.Next()\<close> runs it (gin's
  handler index and \<^verbatim>\<open>Abort\<close> are not modelled: every stage calls \<^verbatim>\<open>Next\<close> exactly once and
  the business handler is the last of the chain).  A deferred function runs when its stage
  returns and when a panic unwinds it; a deferred function that panics replaces the panic
  in flight.
\<close>

definition idKey :: string where
  "idKey = ''__idKey__''"

definition webContextKey :: string where
  "webContextKey = ''__webCtxKey__''"

subsection \<open>id.go\<close>

definition RequestIDMiddleware :: "(nat \<Rightarrow> string \<times> nat) \<Rightarrow> stage \<Rightarrow> stage" where
  "RequestIDMiddleware idGen next w =
     (let requestID = c_GetHeader ''X-Request-ID'' (gin w) in
      if requestID = '''' then
        (case idGen (id_seed w) of
           (generated, seed) \<Rightarrow>
             next (w\<lparr>gin := c_Set idKey (Str generated) (c_Set ''X-Request-ID'' (Str generated) (gin w)),
                     id_seed := seed\<rparr>))
      else next (w\<lparr>gin := c_Set idKey (Str requestID) (gin w)\<rparr>))"

text \<open>The unchecked assertion \<^verbatim>\<open>s.(string)\<close> panics on a value that is not a string.\<close>

definition RequestIdGetter :: "gin_Context \<Rightarrow> string outcome" where
  "RequestIdGetter c =
     (case c_Get idKey c of
        (s, False) \<Rightarrow> Returns ''''
      | (Str s, True) \<Rightarrow> Returns s
      | (v, True) \<Rightarrow> Panics (Err ''interface conversion: interface {} is not string''))"

subsection \<open>recover.go\<close>

text \<open>\<^verbatim>\<open>recover()\<close> stops the panic; the handler is called unless the value is nil.\<close>

definition Recover :: "(any \<Rightarrow> gin_Context \<Rightarrow> unit outcome \<times> gin_Context) \<Rightarrow> stage \<Rightarrow> stage" where
  "Recover panicHandler next w =
     (case next w of
        (Returns u, w1) \<Rightarrow> (Returns (), w1)
      | (Panics err, w1) \<Rightarrow>
          if err \<noteq> nil then
            (case panicHandler err (gin w1) of (r, c) \<Rightarrow> (r, w1\<lparr>gin := c\<rparr>))
          else (Returns (), w1))"

subsection \<open>error\_persist.go\<close>

definition ErrorPersister_message :: string where
  "ErrorPersister_message =
     ''ErrorPersister '' @
     [CHR 0xE6, CHR 0x8A, CHR 0x9B, CHR 0xE5, CHR 0x87, CHR 0xBA, CHR 0xE9, CHR 0x94, CHR 0x99,
      CHR 0xE8, CHR 0xAF, CHR 0xAF]"

text \<open>
  The deferred function of the stage, entered with the value \<^verbatim>\<open>recover()\<close> gives when a
  panic unwinds the stage (on a return \<^verbatim>\<open>recover()\<close> gives nil and nothing is done).
\<close>

definition ErrorPersister_deferred :: "base_logger \<Rightarrow> any \<Rightarrow> stage" where
  "ErrorPersister_deferred log err w =
     (if err \<noteq> nil then
        (case call_Log log ''Errorw''
                [Str ErrorPersister_message, Str ''error'', err,
                 Str ''stackErrors'', Seq (map Err (Errors (gin w)))]
                (emitted (infra w)) of
           (r, out) \<Rightarrow> (r, w\<lparr>infra := (infra w)\<lparr>emitted := out\<rparr>\<rparr>))
      else (Returns (), w))"

text \<open>
  \<open>errors_String\<close> is gin's \<^verbatim>\<open>context.Errors.String()\<close>, a parameter.  The request
  identifier is read before the deferred function is registered, so a panic of the getter
  leaves the stage.
\<close>

definition ErrorPersisterMiddleware ::
  "(web_Errors \<Rightarrow> stage) \<Rightarrow> base_logger \<Rightarrow> (gin_Context \<Rightarrow> string outcome) \<Rightarrow>
   (string list \<Rightarrow> string) \<Rightarrow> stage \<Rightarrow> stage" where
  "ErrorPersisterMiddleware persistent log requestIdGetter errors_String next w =
     (let requestMethod = Request_Method (gin w);
          requestURL = Request_URL (gin w);
          requestPath = Request_URL_Path (gin w);
          requestIP = ClientIP (gin w)
      in case requestIdGetter (gin w) of
           Panics v \<Rightarrow> (Panics v, w)
         | Returns requestID \<Rightarrow>
             (case next w of
                (Panics err, w1) \<Rightarrow> ErrorPersister_deferred log err w1
              | (Returns u, w1) \<Rightarrow>
                  if length (Errors (gin w1)) = 0 then (Returns (), w1)
                  else
                    (case persistent
                            \<lparr>Stack = Str (errors_String (Errors (gin w1))),
                             Method = requestMethod, URL = requestURL, Path = requestPath,
                             IP = requestIP, RequestID = requestID\<rparr> w1 of
                       (Panics err, w2) \<Rightarrow> ErrorPersister_deferred log err w2
                     | (Returns u', w2) \<Rightarrow> (Returns (), w2))))"

subsection \<open>The context-injection stage\<close>

text \<open>
  The stage makes the request's \<^verbatim>\<open>webLog\<close> with an empty buffer and hands
  \<^verbatim>\<open>constructor\<close> a pointer to it.  Its two deferred calls run last registered first:
  the slot is overwritten with nil, then the persister is given the buffer as it is by
  then; the error the persister returns is discarded.  The parameter \<^verbatim>\<open>innerLogger\<close> is the
  one base logger: its output is \<open>emitted\<close> of \<open>infra\<close>, and its behaviour is the
  parameter \<open>L\<close> of the logging methods a handler calls, so the stage itself does not
  take it.
\<close>

definition ContextMiddleware ::
  "(domain_Log \<Rightarrow> Context option) \<Rightarrow> (Log list \<Rightarrow> world \<Rightarrow> string option outcome \<times> world) \<Rightarrow>
   stage \<Rightarrow> stage" where
  "ContextMiddleware constructor webLogPersister next w =
     (let webCtx = constructor webLogger_ptr in
      case next (w\<lparr>webLogger_logs := [],
                    gin := c_Set webContextKey (ContextPtr webCtx) (gin w)\<rparr>) of
        (r, w1) \<Rightarrow>
          (let w2 = w1\<lparr>gin := c_Set webContextKey nil (gin w1)\<rparr> in
           case webLogPersister (webLogger_logs w2) w2 of
             (Panics v, w3) \<Rightarrow> (Panics v, w3)
           | (Returns err, w3) \<Rightarrow> (r, w3)))"

definition ContextMiddlewareGetter :: "gin_Context \<Rightarrow> Context option \<times> bool" where
  "ContextMiddlewareGetter c =
     (case c_Get webContextKey c of
        (v, False) \<Rightarrow> (None, False)
      | (ContextPtr p, True) \<Rightarrow> (p, True)
      | (v, True) \<Rightarrow> (None, False))"

section \<open>The persisters (repository/errors.go)\<close>

text \<open>
  What the persisters call outside the repository is a parameter, gathered in \<open>externals\<close>:
  whether the store's transaction that creates a row fails, \<^verbatim>\<open>json.MarshalIndent\<close> of a
  report, whether \<^verbatim>\<open>os.MkdirAll\<close>, \<^verbatim>\<open>os.OpenFile\<close> and \<^verbatim>\<open>f.Write\<close> fail,
  \<^verbatim>\<open>filepath.Join\<close>, and \<^verbatim>\<open>time.Now().Format(layout)\<close>.  Each of them reports a failure
  as the error it returns and none panics.  A failing call changes nothing;
  \<^verbatim>\<open>OpenFile\<close> with \<^verbatim>\<open>O_CREATE|O_WRONLY|O_APPEND\<close> makes a missing file (empty) and
  keeps an existing one, and a write goes to the end of the file.
\<close>

text \<open>
  \<^verbatim>\<open>filepath.Join\<close> of the Go library on Unix, for two elements: the elements from the first
  one that is not empty on are joined with the separator and the result is cleaned.
  \<^verbatim>\<open>filepath.Clean\<close> reads the path element by element: an empty element and \<^verbatim>\<open>.\<close> are
  dropped; \<^verbatim>\<open>..\<close> removes the element before it when there is one that is not itself
  \<^verbatim>\<open>..\<close>, is dropped at the root of a rooted path, and is kept otherwise; the empty result
  is \<^verbatim>\<open>.\<close>.  \<open>directory_entry dir name\<close> is the path of the entry \<open>name\<close> of the directory
  whose cleaned path is \<open>dir\<close>.
\<close>

fun split_sep :: "string \<Rightarrow> string list" where
  "split_sep [] = [[]]"
| "split_sep (c # cs) =
     (if c = CHR ''/'' then [] # split_sep cs
      else (case split_sep cs of [] \<Rightarrow> [[c]] | x # xs \<Rightarrow> (c # x) # xs))"

fun join_sep :: "string list \<Rightarrow> string" where
  "join_sep [] = []"
| "join_sep [x] = x"
| "join_sep (x # y # ys) = x @ ''/'' @ join_sep (y # ys)"

definition clean_step :: "bool \<Rightarrow> string list \<Rightarrow> string \<Rightarrow> string list" where
  "clean_step rooted out elem =
     (if elem = '''' \<or> elem = ''.'' then out
      else if elem = ''..'' then
        (if out \<noteq> [] \<and> last out \<noteq> ''..'' then butlast out
         else if rooted then out
         else out @ [''..''])
      else out @ [elem])"

definition filepath_Clean :: "string \<Rightarrow> string" where
  "filepath_Clean path =
     (if path = '''' then ''.''
      else (let rooted = (hd path = CHR ''/'');
                out = foldl (clean_step rooted) [] (split_sep path)
            in if rooted then ''/'' @ join_sep out
               else if out = [] then ''.''
               else join_sep out))"

definition filepath_Join :: "string \<Rightarrow> string \<Rightarrow> string" where
  "filepath_Join a b =
     (if a \<noteq> '''' then filepath_Clean (a @ ''/'' @ b)
      else if b \<noteq> '''' then filepath_Clean b
      else '''')"

text \<open>The elements \<^verbatim>\<open>Clean\<close> keeps are not empty, are not \<^verbatim>\<open>.\<close> and hold no separator.\<close>

definition plain_elements :: "string list \<Rightarrow> bool" where
  "plain_elements out = (\<forall>x \<in> set out. x \<noteq> '''' \<and> x \<noteq> ''.'' \<and> CHR ''/'' \<notin> set x)"

definition directory_entry :: "string \<Rightarrow> string \<Rightarrow> string" where
  "directory_entry dir name =
     (if dir = ''.'' then name
      else if dir = ''/'' then ''/'' @ name
      else dir @ ''/'' @ name)"

record externals =
  Transaction_error :: "row \<Rightarrow> string option"
  MarshalIndent :: "web_Errors \<Rightarrow> string + string"
  MkdirAll_error :: "string \<Rightarrow> string option"
  OpenFile_error :: "string \<Rightarrow> string option"
  Write_error :: "string \<Rightarrow> string \<Rightarrow> string option"
  Join :: "string \<Rightarrow> string \<Rightarrow> string"
  Now_Format :: "string \<Rightarrow> string"

definition Transaction_Create :: "externals \<Rightarrow> row \<Rightarrow> infra \<Rightarrow> string option \<times> infra" where
  "Transaction_Create X r s =
     (case Transaction_error X r of
        Some err \<Rightarrow> (Some err, s)
      | None \<Rightarrow> (None, s\<lparr>rows := rows s @ [r]\<rparr>))"

definition os_MkdirAll :: "externals \<Rightarrow> string \<Rightarrow> infra \<Rightarrow> string option \<times> infra" where
  "os_MkdirAll X path s =
     (case MkdirAll_error X path of
        Some err \<Rightarrow> (Some err, s)
      | None \<Rightarrow> (None, s\<lparr>dirs := insert path (dirs s)\<rparr>))"

definition os_OpenFile :: "externals \<Rightarrow> string \<Rightarrow> infra \<Rightarrow> string option \<times> infra" where
  "os_OpenFile X path s =
     (case OpenFile_error X path of
        Some err \<Rightarrow> (Some err, s)
      | None \<Rightarrow> (None, case files s path of
                          None \<Rightarrow> s\<lparr>files := (files s)(path \<mapsto> [])\<rparr>
                        | Some old \<Rightarrow> s))"

definition f_Write :: "externals \<Rightarrow> string \<Rightarrow> string \<Rightarrow> infra \<Rightarrow> string option \<times> infra" where
  "f_Write X path bytes s =
     (case Write_error X path bytes of
        Some err \<Rightarrow> (Some err, s)
      | None \<Rightarrow> (None, s\<lparr>files := (files s)(path \<mapsto> (case files s path of None \<Rightarrow> [] | Some old \<Rightarrow> old) @ bytes)\<rparr>))"

record repository_Errors =
  FallbackFilePath :: string

definition fileName :: "externals \<Rightarrow> web_Errors \<Rightarrow> string" where
  "fileName X rec = ''error_'' @ RequestID rec @ ''_'' @ Now_Format X ''20060102T150405.000'' @ ''.json''"

text \<open>The error of \<^verbatim>\<open>json.MarshalIndent\<close> is discarded: the data is then empty.\<close>

definition saveToFile :: "externals \<Rightarrow> repository_Errors \<Rightarrow> web_Errors \<Rightarrow> infra \<Rightarrow> string option \<times> infra" where
  "saveToFile X e rec s =
     (let bytes = (case MarshalIndent X rec of Inl err \<Rightarrow> [] | Inr js \<Rightarrow> js) in
      case os_MkdirAll X (FallbackFilePath e) s of
        (Some err, s1) \<Rightarrow> (Some err, s1)
      | (None, s1) \<Rightarrow>
          (let fullPath = Join X (FallbackFilePath e) (fileName X rec) in
           case os_OpenFile X fullPath s1 of
             (Some err, s2) \<Rightarrow> (Some err, s2)
           | (None, s2) \<Rightarrow> f_Write X fullPath bytes s2))"

definition Persist_failed_message :: string where
  "Persist_failed_message =
     [CHR 0xE6, CHR 0x97, CHR 0xA0, CHR 0xE6, CHR 0xB3, CHR 0x95, CHR 0xE5, CHR 0x90, CHR 0x91,
      CHR 0xE9, CHR 0x94, CHR 0x99, CHR 0xE8, CHR 0xAF, CHR 0xAF, CHR 0xE6, CHR 0x95, CHR 0xB0,
      CHR 0xE6, CHR 0x8D, CHR 0xAE, CHR 0xE5, CHR 0xBA, CHR 0x93, CHR 0xE5, CHR 0x86, CHR 0x99,
      CHR 0xE5, CHR 0x85, CHR 0xA5, CHR 0xE9, CHR 0x94, CHR 0x99, CHR 0xE8, CHR 0xAF, CHR 0xAF,
      CHR 0xE5, CHR 0xA0, CHR 0x86, CHR 0xE6, CHR 0xA0, CHR 0x88, CHR 0xEF, CHR 0xBC, CHR 0x8C,
      CHR 0xE4, CHR 0xB9, CHR 0x9F, CHR 0xE6, CHR 0x97, CHR 0xA0, CHR 0xE6, CHR 0xB3, CHR 0x95,
      CHR 0xE5, CHR 0x90, CHR 0x91, CHR 0xE9, CHR 0x94, CHR 0x99, CHR 0xE8, CHR 0xAF, CHR 0xAF,
      CHR 0xE6, CHR 0x96, CHR 0x87, CHR 0xE4, CHR 0xBB, CHR 0xB6, CHR 0xE5, CHR 0x86, CHR 0x99,
      CHR 0xE5, CHR 0x85, CHR 0xA5]"

definition Errors_any :: "web_Errors \<Rightarrow> any" where
  "Errors_any rec =
     Dict [(''Stack'', Stack rec), (''Method'', Str (Method rec)), (''URL'', Str (URL rec)),
           (''Path'', Str (Path rec)), (''IP'', Str (IP rec)), (''RequestID'', Str (RequestID rec))]"

text \<open>
  In \<^verbatim>\<open>Errors.Persist\<close> the error of \<^verbatim>\<open>saveToFile\<close> is bound to a new \<^verbatim>\<open>err\<close> that hides
  the transaction's: the one record logged carries the file error and the report.
\<close>

definition Errors_Persist :: "externals \<Rightarrow> base_logger \<Rightarrow> repository_Errors \<Rightarrow> ErrorStackPersister" where
  "Errors_Persist X L e errors s =
     (case Transaction_Create X (ErrorModel errors) s of
        (None, s1) \<Rightarrow> (Returns (), s1)
      | (Some err, s1) \<Rightarrow>
          (case saveToFile X e errors s1 of
             (None, s2) \<Rightarrow> (Returns (), s2)
           | (Some err', s2) \<Rightarrow>
               (case call_Log L ''Errorw''
                       [Str Persist_failed_message, Str ''err'', Err err',
                        Str ''errors'', Errors_any errors]
                       (emitted s2) of
                  (r, out) \<Rightarrow> (r, s2\<lparr>emitted := out\<rparr>))))"

definition Logs_Persist :: "externals \<Rightarrow> LogPersister" where
  "Logs_Persist X ls s =
     (case Transaction_Create X (LogsModel ls) s of (err, s1) \<Rightarrow> (Returns err, s1))"

section \<open>The chain main assembles\<close>

definition panicHandler :: "any \<Rightarrow> gin_Context \<Rightarrow> unit outcome \<times> gin_Context" where
  "panicHandler err c =
     (Returns (),
      c_JSON 500 (Dict [(''error'', Str ''internal_server_error''),
                        (''message'', Str ''An internal error occurred'')]) c)"

definition constructor :: "nat \<Rightarrow> domain_Log \<Rightarrow> Context option" where
  "constructor db lg = Some \<lparr>Database = db, Log = lg\<rparr>"

text \<open>
  \<open>pipeline\<close> is the chain of the four \<^verbatim>\<open>engine.Use\<close> calls around a business handler,
  for any implementation of the two persister interfaces.  \<open>main_pipeline\<close> is the chain
  with the persisters main passes in.
\<close>

definition pipeline ::
  "(nat \<Rightarrow> string \<times> nat) \<Rightarrow> ErrorStackPersister \<Rightarrow> base_logger \<Rightarrow> (string list \<Rightarrow> string) \<Rightarrow>
   nat \<Rightarrow> LogPersister \<Rightarrow> handler \<Rightarrow> stage" where
  "pipeline idGen errorsPersister L errors_String db logsPersister h =
     RequestIDMiddleware idGen
       (ErrorPersisterMiddleware (persists_errors errorsPersister) L RequestIdGetter errors_String
          (Recover panicHandler
             (ContextMiddleware (constructor db) (persists_logs logsPersister) (business h))))"

definition main_pipeline ::
  "externals \<Rightarrow> (nat \<Rightarrow> string \<times> nat) \<Rightarrow> base_logger \<Rightarrow> (string list \<Rightarrow> string) \<Rightarrow> nat \<Rightarrow> handler \<Rightarrow> stage" where
  "main_pipeline X idGen L errors_String db h =
     pipeline idGen (Errors_Persist X L \<lparr>FallbackFilePath = ''./errors''\<rparr>) L errors_String db
       (Logs_Persist X) h"

section \<open>A business handler (handler)\<close>

text \<open>
  \<^verbatim>\<open>User.GetById\<close> with \<^verbatim>\<open>Base.WebContextMust\<close>, the handler the repository registers
  under \<^verbatim>\<open>/api/v1/\<close>.  \<open>Log_Infow\<close> is the call \<^verbatim>\<open>ctx.Log.Infow\<close> on whichever logger the
  Request Context holds.
\<close>

definition WebContextNotFoundError :: string where
  "WebContextNotFoundError =
     [CHR 0xE6, CHR 0x97, CHR 0xA0, CHR 0xE6, CHR 0xB3, CHR 0x95, CHR 0xE6, CHR 0x89, CHR 0xBE,
      CHR 0xE5, CHR 0x88, CHR 0xB0] @ '' WebContextMust'' @
     [CHR 0xEF, CHR 0xBC, CHR 0x8C, CHR 0xE8, CHR 0xAF, CHR 0xB7, CHR 0xE6, CHR 0xA3, CHR 0x80,
      CHR 0xE6, CHR 0x9F, CHR 0xA5] @ '' WebContextMiddleware '' @
     [CHR 0xE6, CHR 0x98, CHR 0xAF, CHR 0xE5, CHR 0x90, CHR 0xA6, CHR 0xE8, CHR 0xA2, CHR 0xAB,
      CHR 0xE6, CHR 0xAD, CHR 0xA3, CHR 0xE7, CHR 0xA1, CHR 0xAE]"

definition ServerInternalError :: "nat \<Rightarrow> any \<Rightarrow> string \<Rightarrow> any" where
  "ServerInternalError code body err = Dict [(''code'', Num (int code)), (''Body'', body), (''err'', Err err)]"

definition WebContextMust :: "handler_state \<Rightarrow> Context option outcome \<times> handler_state" where
  "WebContextMust s =
     (case ContextMiddlewareGetter (hctx s) of
        (webCtx, True) \<Rightarrow> (Returns webCtx, s)
      | (webCtx, False) \<Rightarrow>
          (Panics (ServerInternalError 500 (Dict [(''message'', Str ''WebContextMust not found'')])
                     WebContextNotFoundError),
           s\<lparr>hctx := c_Error WebContextNotFoundError (hctx s)\<rparr>))"

definition Log_Infow ::
  "base_logger \<Rightarrow> json_Marshal \<Rightarrow> fmt_Sprintf \<Rightarrow> domain_Log \<Rightarrow> string \<Rightarrow> variadic \<Rightarrow> handler" where
  "Log_Infow L M S lg msg keysAndValues s =
     (case lg of
        webLogger_ptr \<Rightarrow>
          (case Infow L M S msg keysAndValues (hlog s) of (r, wl) \<Rightarrow> (r, s\<lparr>hlog := wl\<rparr>))
      | zapLogger \<Rightarrow>
          (case call_Log L ''Infow'' (Str msg # passed keysAndValues) (inner (hlog s)) of
             (r, out) \<Rightarrow> (r, s\<lparr>hlog := (hlog s)\<lparr>inner := out\<rparr>\<rparr>)))"

definition GetById :: "base_logger \<Rightarrow> json_Marshal \<Rightarrow> fmt_Sprintf \<Rightarrow> handler" where
  "GetById L M S s =
     (case WebContextMust s of
        (Panics v, s1) \<Rightarrow> (Panics v, s1)
      | (Returns None, s1) \<Rightarrow> (Panics (Err ''invalid memory address or nil pointer dereference''), s1)
      | (Returns (Some ctx), s1) \<Rightarrow>
          (case Log_Infow L M S (Log ctx) ''GetById'' (Some [Str ''id'', Num 1]) s1 of
             (Panics v, s2) \<Rightarrow> (Panics v, s2)
           | (Returns u, s2) \<Rightarrow> (Returns (), s2\<lparr>hctx := c_Error ''a custom error'' (hctx s2)\<rparr>)))"

section \<open>Sample parameters and inputs\<close>

text \<open>
  Concrete stand-ins for the parameters, used to run the model on explicit inputs.
  \<open>quiet_logger\<close> never panics.  \<open>panicking_logger\<close> does at panic level what the logger
  main installs does (zap's development logger): the record is emitted and the call then
  panics with its first argument; at the other levels it returns (the fatal level, which
  ends the process, is outside the model).  \<open>sample_Marshal\<close> refuses the values
  \<^verbatim>\<open>encoding/json\<close> refuses and renders the others.
\<close>

definition quiet_logger :: base_logger where
  "quiet_logger m args = Returns ()"

definition panicking_logger :: base_logger where
  "panicking_logger m args =
     (if m \<in> set [''Panic'', ''Panicf'', ''Panicw'', ''DPanic'', ''DPanicf'', ''DPanicw'']
      then Panics (case args of [] \<Rightarrow> nil | a # as \<Rightarrow> a)
      else Returns ())"

primrec serialisable :: "any \<Rightarrow> bool" where
  "serialisable nil = True"
| "serialisable (Str s) = True"
| "serialisable (Num i) = True"
| "serialisable (Seq xs) = list_all id (map serialisable xs)"
| "serialisable NilSlice = True"
| "serialisable (Err e) = True"
| "serialisable (Dict kvs) = list_all id (map snd (map (map_prod id serialisable) kvs))"
| "serialisable (ContextPtr p) = True"
| "serialisable (Unsupported n) = False"

primrec rendered :: "any \<Rightarrow> string" where
  "rendered nil = ''null''"
| "rendered (Str s) = [CHR 0x22] @ s @ [CHR 0x22]"
| "rendered (Num i) = (if i < 0 then ''-'' else '''') @ replicate (nat \<bar>i\<bar>) (CHR ''|'')"
| "rendered (Seq xs) = ''['' @ concat (map (\<lambda>x. x @ '','') (map rendered xs)) @ '']''"
| "rendered NilSlice = ''null''"
| "rendered (Err e) = ''{}''"
| "rendered (Dict kvs) =
     ''{'' @ concat (map (\<lambda>(k, v). k @ '':'' @ v @ '','') (map (map_prod id rendered) kvs)) @ ''}''"
| "rendered (ContextPtr p) = ''{}''"
| "rendered (Unsupported n) = ''''"

definition sample_Marshal :: json_Marshal where
  "sample_Marshal v = (if serialisable v then Inr (rendered v) else Inl ''json: unsupported type'')"

definition sample_Sprintf :: fmt_Sprintf where
  "sample_Sprintf format args = format @ concat (map rendered args)"

definition sample_idGen :: "nat \<Rightarrow> string \<times> nat" where
  "sample_idGen n = (''generated-'' @ replicate (Suc n) (CHR ''x''), Suc n)"

definition sample_errors_String :: "string list \<Rightarrow> string" where
  "sample_errors_String errs = concat (map (\<lambda>e. ''Error: '' @ e @ [CHR 0x0A]) errs)"

text \<open>
  \<open>sample_externals db_down disk_full\<close>: a store whose transactions fail when \<open>db_down\<close>,
  a disk whose writes fail when \<open>disk_full\<close>, and the \<^verbatim>\<open>filepath.Join\<close> of the Go library.
\<close>

definition sample_externals :: "bool \<Rightarrow> bool \<Rightarrow> externals" where
  "sample_externals db_down disk_full =
     \<lparr>Transaction_error = (\<lambda>r. if db_down then Some ''connection refused'' else None),
      MarshalIndent = (\<lambda>rec. sample_Marshal (Errors_any rec)),
      MkdirAll_error = (\<lambda>path. None),
      OpenFile_error = (\<lambda>path. None),
      Write_error = (\<lambda>path bytes. if disk_full then Some ''no space left on device'' else None),
      Join = filepath_Join,
      Now_Format = (\<lambda>layout. ''20250102T030405.678'')\<rparr>"

definition sample_gin :: "string \<Rightarrow> gin_Context" where
  "sample_gin header =
     \<lparr>Request_Method = ''GET'', Request_URL = ''/api/v1/?verbose=1'', Request_URL_Path = ''/api/v1/'',
      ClientIP = ''10.0.0.7'',
      Header = (\<lambda>k. if k = ''X-Request-ID'' then header else ''''),
      Keys = Map.empty, Errors = [], Written = []\<rparr>"

definition sample_infra :: infra where
  "sample_infra = \<lparr>emitted = [], rows = [], dirs = {}, files = Map.empty\<rparr>"

definition sample_world :: "string \<Rightarrow> world" where
  "sample_world header =
     \<lparr>gin = sample_gin header, webLogger_logs = [], infra = sample_infra,
      logs_received = [], errors_received = [], id_seed = 0\<rparr>"

definition sample_report :: web_Errors where
  "sample_report =
     \<lparr>Stack = Str ''Error: a custom error'', Method = ''GET'', URL = ''/api/v1/?verbose=1'',
      Path = ''/api/v1/'', IP = ''10.0.0.7'', RequestID = ''req-42''\<rparr>"


definition traversing_report :: web_Errors where
  "traversing_report = sample_report\<lparr>RequestID := ''/../../x''\<rparr>"

text \<open>A handler that logs \<^verbatim>\<open>Info("start")\<close>, records an error and panics.\<close>

definition panicking_handler :: "base_logger \<Rightarrow> json_Marshal \<Rightarrow> fmt_Sprintf \<Rightarrow> handler" where
  "panicking_handler L M S s =
     (case Info L M S (Some [Str ''start'']) (hlog s) of
        (Panics v, wl) \<Rightarrow> (Panics v, s\<lparr>hlog := wl\<rparr>)
      | (Returns u, wl) \<Rightarrow>
          (Panics (Str ''boom''), s\<lparr>hlog := wl, hctx := c_Error ''a custom error'' (hctx s)\<rparr>))"

section \<open>Notions the statements use\<close>

text \<open>
  \<open>record_of\<close> is the record a logging call leaves when it is made alone, on an empty
  buffer, through a base logger that returns.

  \<open>id_entry\<close> is the world the Request-ID stage passes on, \<open>context_entry\<close> the world
  the context-injection stage passes on, and \<open>handler_entry\<close> the state the chain of main
  enters the business handler in: the request identifier is in its slots, the Request
  Context is in its slot, and the buffer of the request's \<^verbatim>\<open>webLog\<close> is empty.
\<close>

definition record_of :: "json_Marshal \<Rightarrow> fmt_Sprintf \<Rightarrow> log_call \<Rightarrow> Log" where
  "record_of M S c = last (logs (snd (invoke (\<lambda>m args. Returns ()) M S c \<lparr>inner = [], logs = []\<rparr>)))"

definition id_entry :: "(nat \<Rightarrow> string \<times> nat) \<Rightarrow> world \<Rightarrow> world" where
  "id_entry idGen w =
     (if c_GetHeader ''X-Request-ID'' (gin w) = ''''
      then w\<lparr>gin := c_Set idKey (Str (fst (idGen (id_seed w))))
                      (c_Set ''X-Request-ID'' (Str (fst (idGen (id_seed w)))) (gin w)),
             id_seed := snd (idGen (id_seed w))\<rparr>
      else w\<lparr>gin := c_Set idKey (Str (c_GetHeader ''X-Request-ID'' (gin w))) (gin w)\<rparr>)"

definition context_entry :: "(domain_Log \<Rightarrow> Context option) \<Rightarrow> world \<Rightarrow> world" where
  "context_entry ctor w =
     w\<lparr>webLogger_logs := [], gin := c_Set webContextKey (ContextPtr (ctor webLogger_ptr)) (gin w)\<rparr>"

definition handler_entry :: "(nat \<Rightarrow> string \<times> nat) \<Rightarrow> nat \<Rightarrow> world \<Rightarrow> handler_state" where
  "handler_entry idGen db w = handler_view (context_entry (constructor db) (id_entry idGen w))"

text \<open>An Error Persister that panics, and a handler that returns at once.\<close>

definition exploding_persister :: ErrorStackPersister where
  "exploding_persister errors s = (Panics (Str ''persister exploded''), s)"

definition idle_handler :: handler where
  "idle_handler s = (Returns (), s)"

section \<open>Properties of the stages\<close>

text \<open>
  Each stage, written out as the outcome and the world it leaves.  \<open>nxt\<close> is the rest of
  the chain.
\<close>

lemmas sample_defs =
  sample_world_def sample_gin_def sample_infra_def sample_idGen_def sample_errors_String_def
  sample_Marshal_def sample_Sprintf_def quiet_logger_def panicking_logger_def sample_externals_def
  sample_report_def

lemmas entry_defs =
  handler_entry_def handler_view_def context_entry_def id_entry_def constructor_def
  c_Set_def c_Get_def c_GetHeader_def c_Error_def c_JSON_def idKey_def webContextKey_def

lemmas persister_defs =
  Errors_Persist_def Logs_Persist_def saveToFile_def Transaction_Create_def os_MkdirAll_def
  os_OpenFile_def f_Write_def fileName_def call_Log_def Errors_any_def

lemmas webLog_methods =
  Debug_def Info_def Warn_def Error_def DPanic_def Panic_def Fatal_def
  Debugf_def Infof_def Warnf_def Errorf_def DPanicf_def Panicf_def Fatalf_def
  Debugw_def Infow_def Warnw_def Errorw_def DPanicw_def Panicw_def Fatalw_def

lemma business_eq:
  "business h w =
     (fst (h (handler_view w)),
      w\<lparr>gin := hctx (snd (h (handler_view w))),
        webLogger_logs := logs (hlog (snd (h (handler_view w)))),
        infra := (infra w)\<lparr>emitted := inner (hlog (snd (h (handler_view w))))\<rparr>\<rparr>)"
  by (simp add: business_def split: prod.splits)

lemma persists_logs_eq:
  "persists_logs P ls w =
     (fst (P ls (infra w)), w\<lparr>infra := snd (P ls (infra w)), logs_received := logs_received w @ [ls]\<rparr>)"
  by (simp add: persists_logs_def split: prod.splits)

lemma persists_errors_eq:
  "persists_errors P e w =
     (fst (P e (infra w)), w\<lparr>infra := snd (P e (infra w)), errors_received := errors_received w @ [e]\<rparr>)"
  by (simp add: persists_errors_def split: prod.splits)

lemma RequestIDMiddleware_eq: "RequestIDMiddleware idGen nxt w = nxt (id_entry idGen w)"
  by (simp add: RequestIDMiddleware_def id_entry_def Let_def split: prod.splits)

lemma RequestIdGetter_id_entry:
  "RequestIdGetter (gin (id_entry idGen w)) =
     Returns (if Header (gin w) ''X-Request-ID'' = '''' then fst (idGen (id_seed w))
              else Header (gin w) ''X-Request-ID'')"
  by (simp add: id_entry_def RequestIdGetter_def c_Get_def c_Set_def c_GetHeader_def)

lemma id_entry_fields:
  "Request_Method (gin (id_entry idGen w)) = Request_Method (gin w)"
  "Request_URL (gin (id_entry idGen w)) = Request_URL (gin w)"
  "Request_URL_Path (gin (id_entry idGen w)) = Request_URL_Path (gin w)"
  "ClientIP (gin (id_entry idGen w)) = ClientIP (gin w)"
  "logs_received (id_entry idGen w) = logs_received w"
  "errors_received (id_entry idGen w) = errors_received w"
  by (simp_all add: id_entry_def c_Set_def)

lemma ContextMiddleware_eq:
  "ContextMiddleware ctor (persists_logs P) nxt w =
     (let w1 = snd (nxt (context_entry ctor w));
          w2 = w1\<lparr>gin := c_Set webContextKey nil (gin w1)\<rparr>
      in (case fst (P (webLogger_logs w1) (infra w1)) of
            Panics v \<Rightarrow> Panics v
          | Returns err \<Rightarrow> fst (nxt (context_entry ctor w)),
          w2\<lparr>infra := snd (P (webLogger_logs w1) (infra w1)),
             logs_received := logs_received w1 @ [webLogger_logs w1]\<rparr>))"
  by (simp add: ContextMiddleware_def context_entry_def persists_logs_eq Let_def split: prod.splits outcome.splits)

lemma ContextMiddleware_context_entry:
  "ContextMiddleware ctor P nxt w =
     (case nxt (context_entry ctor w) of
        (r, w1) \<Rightarrow>
          (case P (webLogger_logs w1) (w1\<lparr>gin := c_Set webContextKey nil (gin w1)\<rparr>) of
             (Panics v, w3) \<Rightarrow> (Panics v, w3)
           | (Returns err, w3) \<Rightarrow> (r, w3)))"
  by (simp add: ContextMiddleware_def context_entry_def Let_def)

lemma Recover_panicHandler_fst: "fst (Recover panicHandler nxt w) = Returns ()"
  by (simp add: Recover_def panicHandler_def split: prod.splits outcome.splits)

lemma Recover_panicHandler_snd:
  "snd (Recover panicHandler nxt w) =
     (case fst (nxt w) of
        Returns u \<Rightarrow> snd (nxt w)
      | Panics err \<Rightarrow>
          if err \<noteq> nil
          then (snd (nxt w))\<lparr>gin := c_JSON 500 (Dict [(''error'', Str ''internal_server_error''),
                        (''message'', Str ''An internal error occurred'')]) (gin (snd (nxt w)))\<rparr>
          else snd (nxt w))"
  by (simp add: Recover_def panicHandler_def split: prod.splits outcome.splits)

text \<open>
  The chain inside the error-persistence stage always returns; it hands the Audit Persister
  the buffer the handler leaves, calls no Error Persister, and leaves the errors the handler
  recorded.
\<close>

lemma inner_fst:
  "fst (Recover panicHandler (ContextMiddleware ctor (persists_logs A) (business h)) w) = Returns ()"
  by (rule Recover_panicHandler_fst)

lemma inner_logs_received:
  "logs_received (snd (Recover panicHandler (ContextMiddleware ctor (persists_logs A) (business h)) w)) =
     logs_received w @ [logs (hlog (snd (h (handler_view (context_entry ctor w)))))]"
  by (simp add: Recover_panicHandler_snd ContextMiddleware_eq business_eq Let_def
        context_entry_def split: outcome.splits)

lemma inner_errors_received:
  "errors_received (snd (Recover panicHandler (ContextMiddleware ctor (persists_logs A) (business h)) w)) =
     errors_received w"
  by (simp add: Recover_panicHandler_snd ContextMiddleware_eq business_eq Let_def
        context_entry_def split: outcome.splits)

lemma inner_Errors:
  "Errors (gin (snd (Recover panicHandler (ContextMiddleware ctor (persists_logs A) (business h)) w))) =
     Errors (hctx (snd (h (handler_view (context_entry ctor w)))))"
  by (simp add: Recover_panicHandler_snd ContextMiddleware_eq business_eq Let_def
        context_entry_def c_Set_def c_JSON_def split: outcome.splits)

text \<open>
  The error-persistence stage around a chain that returns.
\<close>

lemma ErrorPersister_deferred_received:
  "logs_received (snd (ErrorPersister_deferred lg err w)) = logs_received w"
  "errors_received (snd (ErrorPersister_deferred lg err w)) = errors_received w"
  by (simp_all add: ErrorPersister_deferred_def split: prod.splits)

lemma ErrorPersister_deferred_fst:
  "lg ''Errorw'' [Str ErrorPersister_message, Str ''error'', err,
                 Str ''stackErrors'', Seq (map Err (Errors (gin w)))] = Returns () \<Longrightarrow>
   fst (ErrorPersister_deferred lg err w) = Returns ()"
  by (simp add: ErrorPersister_deferred_def call_Log_def)

lemma ErrorPersisterMiddleware_errors_received:
  assumes "getter (gin w) = Returns rid" and "fst (nxt w) = Returns ()"
  shows "errors_received (snd (ErrorPersisterMiddleware (persists_errors P) lg getter eS nxt w)) =
     errors_received (snd (nxt w)) @
       (if Errors (gin (snd (nxt w))) = [] then []
        else [\<lparr>Stack = Str (eS (Errors (gin (snd (nxt w))))),
               Method = Request_Method (gin w), URL = Request_URL (gin w),
               Path = Request_URL_Path (gin w), IP = ClientIP (gin w), RequestID = rid\<rparr>])"
  using assms
  by (cases "nxt w")
     (simp add: ErrorPersisterMiddleware_def persists_errors_eq ErrorPersister_deferred_received Let_def
        split: outcome.splits)

lemma ErrorPersisterMiddleware_logs_received:
  assumes "getter (gin w) = Returns rid"
  shows "logs_received (snd (ErrorPersisterMiddleware (persists_errors P) lg getter eS nxt w)) =
     logs_received (snd (nxt w))"
  using assms
  by (cases "nxt w")
     (simp add: ErrorPersisterMiddleware_def persists_errors_eq ErrorPersister_deferred_received Let_def
        split: outcome.splits)

lemma ErrorPersisterMiddleware_fst:
  assumes "getter (gin w) = Returns rid" and "\<And>args. lg ''Errorw'' args = Returns ()"
  shows "fst (ErrorPersisterMiddleware persistent lg getter eS nxt w) = Returns ()"
  using assms
  by (cases "nxt w")
     (simp add: ErrorPersisterMiddleware_def ErrorPersister_deferred_fst Let_def
        split: outcome.splits prod.splits)

lemma pipeline_eq:
  "pipeline idGen P L eS db A h w =
     ErrorPersisterMiddleware (persists_errors P) L RequestIdGetter eS
       (Recover panicHandler (ContextMiddleware (constructor db) (persists_logs A) (business h)))
       (id_entry idGen w)"
  by (simp add: pipeline_def RequestIDMiddleware_eq)

text \<open>
  The chain consults the business handler in the state \<open>handler_entry\<close> and nowhere else.
\<close>

lemma pipeline_handler_entry:
  assumes "h' (handler_entry idGen db w) = h (handler_entry idGen db w)"
  shows "pipeline idGen P L eS db A h' w = pipeline idGen P L eS db A h w"
proof -
  have "business h' (context_entry (constructor db) (id_entry idGen w)) =
        business h (context_entry (constructor db) (id_entry idGen w))"
    using assms by (simp add: business_eq handler_entry_def)
  then have "ContextMiddleware (constructor db) (persists_logs A) (business h') (id_entry idGen w) =
             ContextMiddleware (constructor db) (persists_logs A) (business h) (id_entry idGen w)"
    by (simp only: ContextMiddleware_context_entry)
  then have "Recover panicHandler (ContextMiddleware (constructor db) (persists_logs A) (business h')) (id_entry idGen w) =
             Recover panicHandler (ContextMiddleware (constructor db) (persists_logs A) (business h)) (id_entry idGen w)"
    by (simp only: Recover_def)
  then show ?thesis
    by (simp only: pipeline_eq ErrorPersisterMiddleware_def)
qed

text \<open>
  The sample handlers at the entry state, and the stand-in for gin's \<^verbatim>\<open>Errors.String()\<close>.
\<close>

lemma panicking_handler_at_entry:
  "panicking_handler panicking_logger sample_Marshal sample_Sprintf (handler_entry sample_idGen 7 (sample_world '''')) =
     (Panics (Str ''boom''),
      (handler_entry sample_idGen 7 (sample_world ''''))
        \<lparr>hlog := \<lparr>inner = [(''Info'', [Str ''start''])],
                  logs = [\<lparr>Level = ''INFO'', Msg = rendered (Seq [Str ''start''])\<rparr>]\<rparr>,
         hctx := c_Error ''a custom error'' (hctx (handler_entry sample_idGen 7 (sample_world '''')))\<rparr>)"
  by (simp add: panicking_handler_def Info_def forward_def call_Log_def appendToLogs_def
        sample_defs entry_defs)

lemma GetById_at_entry:
  "GetById quiet_logger sample_Marshal sample_Sprintf (handler_entry sample_idGen 7 (sample_world header)) =
     (Returns (),
      (handler_entry sample_idGen 7 (sample_world header))
        \<lparr>hlog := \<lparr>inner = [(''Infow'', [Str ''GetById'', Str ''id'', Num 1])],
                  logs = [\<lparr>Level = ''INFO'',
                           Msg = rendered (Seq [Str ''GetById'', Seq [Str ''id'', Num 1]])\<rparr>]\<rparr>,
         hctx := c_Error ''a custom error'' (hctx (handler_entry sample_idGen 7 (sample_world header)))\<rparr>)"
  by (simp add: GetById_def WebContextMust_def ContextMiddlewareGetter_def Log_Infow_def Infow_def
        forward_def call_Log_def appendToLogs_def sample_defs entry_defs)

lemma sample_errors_String_nonempty: "\<forall>errs. errs \<noteq> [] \<longrightarrow> sample_errors_String errs \<noteq> ''''"
proof (intro allI impI)
  fix errs :: "string list"
  assume "errs \<noteq> []"
  then show "sample_errors_String errs \<noteq> ''''"
    by (cases errs) (simp_all add: sample_errors_String_def)
qed

text \<open>
  The Request Log Collector: a call either panics in the base logger and leaves the
  buffer as it was, or returns and has appended its record.
\<close>

lemma forward_cases:
  "forward L m args k w =
     (case L m args of
        Panics v \<Rightarrow> (Panics v, w\<lparr>inner := inner w @ [(m, args)]\<rparr>)
      | Returns u \<Rightarrow> (Returns (), k (w\<lparr>inner := inner w @ [(m, args)]\<rparr>)))"
  by (simp add: forward_def call_Log_def split: outcome.splits)

lemma logs_appendToLogs:
  "logs (appendToLogs M S lv args w) =
     logs w @ [\<lparr>Level = lv,
                Msg = (case M (slice_value args) of
                         Inl err \<Rightarrow> S serialize_error_format [Err err, slice_value args]
                       | Inr js \<Rightarrow> js)\<rparr>]"
  by (simp add: appendToLogs_def Let_def)

lemma invoke_Returns:
  assumes "fst (invoke L M S c w) = Returns ()"
  shows "logs (snd (invoke L M S c w)) = logs w @ [record_of M S c]"
  using assms
  by (cases c; cases "level_of c")
     (auto simp: record_of_def webLog_methods forward_cases logs_appendToLogs split: outcome.splits)

lemma invoke_Panics:
  assumes "fst (invoke L M S c w) = Panics v"
  shows "logs (snd (invoke L M S c w)) = logs w"
  using assms
  by (cases c; cases "level_of c")
     (auto simp: webLog_methods forward_cases split: outcome.splits)

lemma Level_record_of: "Level (record_of M S c) = level_name (level_of c)"
  by (cases c; cases "level_of c")
     (auto simp: record_of_def webLog_methods forward_cases logs_appendToLogs)

lemma log_all_Returns:
  "fst (log_all L M S calls w) = Returns () \<Longrightarrow>
   logs (snd (log_all L M S calls w)) = logs w @ map (record_of M S) calls"
proof (induction calls arbitrary: w)
  case Nil
  then show ?case by simp
next
  case (Cons c cs)
  obtain r w' where inv: "invoke L M S c w = (r, w')" by (cases "invoke L M S c w")
  show ?case
  proof (cases r)
    case (Panics v)
    with Cons.prems inv show ?thesis by simp
  next
    case (Returns u)
    with inv have "fst (invoke L M S c w) = Returns ()" by simp
    from invoke_Returns[OF this] inv have l: "logs w' = logs w @ [record_of M S c]" by simp
    from Cons.prems inv Returns have "fst (log_all L M S cs w') = Returns ()" by simp
    from Cons.IH[OF this] l inv Returns show ?thesis by simp
  qed
qed

text \<open>
  \<^verbatim>\<open>filepath.Join\<close>: a path splits at a separator into the elements of its two parts,
  the elements \<^verbatim>\<open>Clean\<close> keeps are plain, and joining a directory with a name that holds no
  separator and is not empty, \<^verbatim>\<open>.\<close> or \<^verbatim>\<open>..\<close> gives the entry of that name in the cleaned
  directory.
\<close>

lemma split_sep_nonempty: "split_sep p \<noteq> []"
  by (induction p) (auto split: list.splits)

lemma split_sep_append: "split_sep (a @ CHR ''/'' # b) = split_sep a @ split_sep b"
proof (induction a)
  case Nil
  show ?case by simp
next
  case (Cons c a)
  show ?case
  proof (cases "c = CHR ''/''")
    case True
    with Cons show ?thesis by simp
  next
    case False
    obtain x xs where s: "split_sep a = x # xs"
      using split_sep_nonempty[of a] by (cases "split_sep a") auto
    with False Cons show ?thesis by simp
  qed
qed

lemma split_sep_plain: "CHR ''/'' \<notin> set b \<Longrightarrow> split_sep b = [b]"
  by (induction b) auto

lemma split_sep_elements: "x \<in> set (split_sep p) \<Longrightarrow> CHR ''/'' \<notin> set x"
proof (induction p arbitrary: x)
  case Nil
  then show ?case by simp
next
  case (Cons c p)
  obtain y ys where s: "split_sep p = y # ys"
    using split_sep_nonempty[of p] by (cases "split_sep p") auto
  show ?case
  proof (cases "c = CHR ''/''")
    case True
    with Cons show ?thesis by auto
  next
    case False
    with Cons.prems s have "x = c # y \<or> x \<in> set ys" by simp
    with Cons.IH[of y] Cons.IH[of x] s False show ?thesis by auto
  qed
qed

lemma join_sep_snoc: "join_sep (xs @ [n]) = (if xs = [] then n else join_sep xs @ ''/'' @ n)"
  by (induction xs rule: join_sep.induct) auto

lemma clean_step_plain:
  "plain_elements out \<Longrightarrow> CHR ''/'' \<notin> set x \<Longrightarrow> plain_elements (clean_step rooted out x)"
  by (auto simp: plain_elements_def clean_step_def dest: in_set_butlastD)

lemma foldl_clean_step_plain:
  "plain_elements out \<Longrightarrow> \<forall>x \<in> set xs. CHR ''/'' \<notin> set x \<Longrightarrow>
   plain_elements (foldl (clean_step rooted) out xs)"
  by (induction xs arbitrary: out) (auto simp: clean_step_plain)

lemma cleaned_plain: "plain_elements (foldl (clean_step rooted) [] (split_sep p))"
  by (rule foldl_clean_step_plain) (auto simp: plain_elements_def dest: split_sep_elements)

lemma join_sep_plain:
  assumes "plain_elements out" and "out \<noteq> []"
  shows "join_sep out \<noteq> '''' \<and> join_sep out \<noteq> ''.'' \<and> join_sep out \<noteq> ''/''"
proof (cases out)
  case Nil
  with assms show ?thesis by simp
next
  case (Cons x xs)
  show ?thesis
  proof (cases xs)
    case Nil
    with Cons assms show ?thesis by (auto simp: plain_elements_def)
  next
    case (Cons y ys)
    from assms \<open>out = x # xs\<close> obtain a x' where "x = a # x'"
      by (cases x) (auto simp: plain_elements_def)
    with Cons \<open>out = x # xs\<close> show ?thesis by simp
  qed
qed

lemma filepath_Join_entry:
  assumes "CHR ''/'' \<notin> set name" and "name \<noteq> ''''" and "name \<noteq> ''.''" and "name \<noteq> ''..''"
  shows "filepath_Join dir name = directory_entry (filepath_Clean dir) name"
proof (cases "dir = ''''")
  case True
  from assms(1,2) have "hd name \<noteq> CHR ''/''" by (cases name) auto
  with True assms show ?thesis
    by (simp add: filepath_Join_def filepath_Clean_def directory_entry_def split_sep_plain
          clean_step_def Let_def)
next
  case False
  define r where "r = (hd dir = CHR ''/'')"
  define out where "out = foldl (clean_step r) [] (split_sep dir)"
  have p: "plain_elements out" unfolding out_def by (rule cleaned_plain)
  from False have h: "hd (dir @ CHR ''/'' # name) = hd dir" by simp
  have f: "foldl (clean_step r) [] (split_sep (dir @ CHR ''/'' # name)) = out @ [name]"
    using assms by (simp add: out_def split_sep_append split_sep_plain clean_step_def)
  have c: "filepath_Clean dir = (if r then ''/'' @ join_sep out else if out = [] then ''.'' else join_sep out)"
    using False by (simp only: filepath_Clean_def Let_def r_def[symmetric] out_def[symmetric] if_False)
  have "filepath_Join dir name = filepath_Clean (dir @ CHR ''/'' # name)"
    using False by (simp add: filepath_Join_def)
  also have "\<dots> = (if r then ''/'' @ join_sep (out @ [name])
                    else if out @ [name] = [] then ''.'' else join_sep (out @ [name]))"
    by (simp only: filepath_Clean_def Let_def h r_def[symmetric] f) simp
  finally have j: "filepath_Join dir name =
             (if r then ''/'' @ join_sep (out @ [name]) else join_sep (out @ [name]))"
    by simp
  show ?thesis
  proof (cases "out = []")
    case True
    then show ?thesis
      unfolding j c by (simp add: directory_entry_def)
  next
    case nonempty: False
    from join_sep_plain[OF p nonempty] nonempty show ?thesis
      unfolding j c by (simp add: directory_entry_def join_sep_snoc)
  qed
qed

lemma fileName_plain:
  assumes "CHR ''/'' \<notin> set rid" and "CHR ''/'' \<notin> set ts"
  shows "CHR ''/'' \<notin> set (''error_'' @ rid @ ''_'' @ ts @ ''.json'')"
    and "''error_'' @ rid @ ''_'' @ ts @ ''.json'' \<noteq> ''''"
    and "''error_'' @ rid @ ''_'' @ ts @ ''.json'' \<noteq> ''.''"
    and "''error_'' @ rid @ ''_'' @ ts @ ''.json'' \<noteq> ''..''"
  using assms by auto

lemma sample_paths:
  "filepath_Join ''./errors'' ''error_req-42_20250102T030405.678.json'' =
     ''errors/error_req-42_20250102T030405.678.json''"
  "filepath_Join ''./errors'' ''error_/../../x_20250102T030405.678.json'' =
     ''x_20250102T030405.678.json''"
  by (simp_all add: filepath_Join_def filepath_Clean_def clean_step_def)

section \<open>The claims\<close>

subsection \<open>C1: a panicking handler\<close>

text \<open>
  Claim C1.  Whatever the business handler does (it returns, it records errors, it
  panics), the chain of main returns to its caller: a panic is recovered.  The Audit
  Persister is called exactly once, with the buffer as the handler left it, and the Error
  Persister is called exactly once, with the report of the request, when the handler left
  at least one recorded error and not at all otherwise.  This holds for any implementation
  of the two persisters, also one that panics, provided error-level logging on the base
  logger returns (the panic guard of the error-persistence stage logs there).
\<close>

theorem pipeline_survives_panic:
  assumes "\<forall>args. L ''Errorw'' args = Returns ()"
  shows "fst (pipeline idGen P L eS db A h w) = Returns () \<and>
         logs_received (snd (pipeline idGen P L eS db A h w)) =
           logs_received w @ [logs (hlog (snd (h (handler_entry idGen db w))))] \<and>
         errors_received (snd (pipeline idGen P L eS db A h w)) =
           errors_received w @
           (if Errors (hctx (snd (h (handler_entry idGen db w)))) = [] then []
            else [\<lparr>Stack = Str (eS (Errors (hctx (snd (h (handler_entry idGen db w)))))),
                   Method = Request_Method (gin w), URL = Request_URL (gin w),
                   Path = Request_URL_Path (gin w), IP = ClientIP (gin w),
                   RequestID = (if Header (gin w) ''X-Request-ID'' = '''' then fst (idGen (id_seed w))
                                else Header (gin w) ''X-Request-ID'')\<rparr>])"
proof -
  let ?I = "Recover panicHandler (ContextMiddleware (constructor db) (persists_logs A) (business h))"
  let ?w = "id_entry idGen w"
  have g: "RequestIdGetter (gin ?w) =
     Returns (if Header (gin w) ''X-Request-ID'' = '''' then fst (idGen (id_seed w))
              else Header (gin w) ''X-Request-ID'')"
    by (rule RequestIdGetter_id_entry)
  have r: "fst (?I ?w) = Returns ()" by (rule inner_fst)
  note fst_rule = ErrorPersisterMiddleware_fst[where getter = RequestIdGetter and w = ?w, OF g]
  note logs_rule = ErrorPersisterMiddleware_logs_received[where getter = RequestIdGetter and w = ?w, OF g]
  note errors_rule =
    ErrorPersisterMiddleware_errors_received[where getter = RequestIdGetter and w = ?w and nxt = ?I, OF g r]
  have 1: "fst (pipeline idGen P L eS db A h w) = Returns ()"
    unfolding pipeline_eq using assms by (intro fst_rule) auto
  have 2: "logs_received (snd (pipeline idGen P L eS db A h w)) =
           logs_received w @ [logs (hlog (snd (h (handler_entry idGen db w))))]"
    unfolding pipeline_eq
    by (simp add: logs_rule inner_logs_received handler_entry_def id_entry_fields)
  have 3: "errors_received (snd (pipeline idGen P L eS db A h w)) =
           errors_received w @
           (if Errors (hctx (snd (h (handler_entry idGen db w)))) = [] then []
            else [\<lparr>Stack = Str (eS (Errors (hctx (snd (h (handler_entry idGen db w)))))),
                   Method = Request_Method (gin w), URL = Request_URL (gin w),
                   Path = Request_URL_Path (gin w), IP = ClientIP (gin w),
                   RequestID = (if Header (gin w) ''X-Request-ID'' = '''' then fst (idGen (id_seed w))
                                else Header (gin w) ''X-Request-ID'')\<rparr>])"
    unfolding pipeline_eq
    by (simp add: errors_rule inner_errors_received inner_Errors handler_entry_def id_entry_fields)
  from 1 2 3 show ?thesis by blast
qed

text \<open>
  The theorem at a handler that logs, records an error and panics, with the store down
  and the disk full.
\<close>

theorem pipeline_survives_panic_witness:
  "(\<forall>args. panicking_logger ''Errorw'' args = Returns ()) \<and>
   fst (panicking_handler panicking_logger sample_Marshal sample_Sprintf
          (handler_entry sample_idGen 7 (sample_world ''''))) = Panics (Str ''boom'') \<and>
   fst (main_pipeline (sample_externals True True) sample_idGen panicking_logger sample_errors_String 7
          (panicking_handler panicking_logger sample_Marshal sample_Sprintf) (sample_world '''')) =
     Returns () \<and>
   logs_received (snd (main_pipeline (sample_externals True True) sample_idGen panicking_logger
          sample_errors_String 7 (panicking_handler panicking_logger sample_Marshal sample_Sprintf)
          (sample_world ''''))) =
     [[\<lparr>Level = ''INFO'', Msg = rendered (Seq [Str ''start''])\<rparr>]] \<and>
   errors_received (snd (main_pipeline (sample_externals True True) sample_idGen panicking_logger
          sample_errors_String 7 (panicking_handler panicking_logger sample_Marshal sample_Sprintf)
          (sample_world ''''))) =
     [\<lparr>Stack = Str (''Error: a custom error'' @ [CHR 0x0A]), Method = ''GET'',
       URL = ''/api/v1/?verbose=1'', Path = ''/api/v1/'', IP = ''10.0.0.7'',
       RequestID = ''generated-x''\<rparr>]"
proof -
  have q: "\<forall>args. panicking_logger ''Errorw'' args = Returns ()"
    by (simp add: panicking_logger_def)
  have w: "logs_received (sample_world '''') = []" "errors_received (sample_world '''') = []"
    "Request_Method (gin (sample_world '''')) = ''GET''"
    "Request_URL (gin (sample_world '''')) = ''/api/v1/?verbose=1''"
    "Request_URL_Path (gin (sample_world '''')) = ''/api/v1/''"
    "ClientIP (gin (sample_world '''')) = ''10.0.0.7''"
    "Header (gin (sample_world '''')) ''X-Request-ID'' = ''''"
    "fst (sample_idGen (id_seed (sample_world ''''))) = ''generated-x''"
    by (simp_all add: sample_world_def sample_gin_def sample_idGen_def)
  have e: "Errors (hctx (handler_entry sample_idGen 7 (sample_world ''''))) = []"
    by (simp add: entry_defs sample_defs)
  show ?thesis
    using pipeline_survives_panic[where L = panicking_logger and idGen = sample_idGen
        and P = "Errors_Persist (sample_externals True True) panicking_logger \<lparr>FallbackFilePath = ''./errors''\<rparr>"
        and eS = sample_errors_String and db = 7 and A = "Logs_Persist (sample_externals True True)"
        and h = "panicking_handler panicking_logger sample_Marshal sample_Sprintf"
        and w = "sample_world ''''", OF q]
    by (simp add: main_pipeline_def q w e panicking_handler_at_entry c_Error_def sample_errors_String_def)
qed

subsection \<open>C2: the fallback chain of the Error Persister\<close>




subsection \<open>C3: a failed audit write\<close>

text \<open>
  Claim C3, as amended.  When the transaction of the Audit Persister fails,
  \<^verbatim>\<open>Logs.Persist\<close> returns the error to its caller, changes nothing and logs nothing.  The
  context-injection stage discards the returned error: its outcome is that of the rest of
  the chain, and it changes nothing of what the rest of the chain left but the slot, which
  it clears (the call to the persister is recorded).
\<close>

theorem Logs_Persist_returns_failure:
  assumes "Transaction_error X (LogsModel ls) = Some err"
  shows "Logs_Persist X ls s = (Returns (Some err), s) \<and>
         (webLogger_logs (snd (nxt (context_entry ctor w))) = ls \<longrightarrow>
          ContextMiddleware ctor (persists_logs (Logs_Persist X)) nxt w =
            (fst (nxt (context_entry ctor w)),
             (snd (nxt (context_entry ctor w)))
               \<lparr>gin := c_Set webContextKey nil (gin (snd (nxt (context_entry ctor w)))),
                logs_received := logs_received (snd (nxt (context_entry ctor w))) @ [ls]\<rparr>))"
proof -
  have 1: "\<And>s. Logs_Persist X ls s = (Returns (Some err), s)"
    using assms by (simp add: Logs_Persist_def Transaction_Create_def)
  have 2: "webLogger_logs (snd (nxt (context_entry ctor w))) = ls \<longrightarrow>
          ContextMiddleware ctor (persists_logs (Logs_Persist X)) nxt w =
            (fst (nxt (context_entry ctor w)),
             (snd (nxt (context_entry ctor w)))
               \<lparr>gin := c_Set webContextKey nil (gin (snd (nxt (context_entry ctor w)))),
                logs_received := logs_received (snd (nxt (context_entry ctor w))) @ [ls]\<rparr>)"
    by (auto simp: ContextMiddleware_eq Let_def 1)
  from 1 2 show ?thesis by blast
qed

theorem Logs_Persist_returns_failure_witness:
  "Transaction_error (sample_externals True False) (LogsModel [\<lparr>Level = ''INFO'', Msg = ''start''\<rparr>]) =
     Some ''connection refused'' \<and>
   Logs_Persist (sample_externals True False) [\<lparr>Level = ''INFO'', Msg = ''start''\<rparr>] sample_infra =
     (Returns (Some ''connection refused''), sample_infra)"
proof -
  have t: "Transaction_error (sample_externals True False) (LogsModel [\<lparr>Level = ''INFO'', Msg = ''start''\<rparr>]) =
     Some ''connection refused''"
    by (simp add: sample_externals_def)
  from Logs_Persist_returns_failure[OF t] t show ?thesis by blast
qed

text \<open>
  Claim C3 as stated fails: with the store down the persister hands the error back to
  its caller, and neither the persister nor the context-injection stage around it emits a
  log record.
\<close>

theorem Logs_Persist_failure_not_logged:
  "fst (Logs_Persist (sample_externals True False) [\<lparr>Level = ''INFO'', Msg = ''start''\<rparr>] sample_infra) =
     Returns (Some ''connection refused'') \<and>
   emitted (snd (Logs_Persist (sample_externals True False) [\<lparr>Level = ''INFO'', Msg = ''start''\<rparr>]
     sample_infra)) = [] \<and>
   logs_received (snd (ContextMiddleware (constructor 7)
     (persists_logs (Logs_Persist (sample_externals True False))) (business idle_handler)
     (sample_world ''req-42''))) = [[]] \<and>
   emitted (infra (snd (ContextMiddleware (constructor 7)
     (persists_logs (Logs_Persist (sample_externals True False))) (business idle_handler)
     (sample_world ''req-42'')))) = []"
  by (simp add: persister_defs sample_defs ContextMiddleware_def persists_logs_def business_def
        handler_view_def idle_handler_def Let_def)

subsection \<open>C4: one report when errors were recorded\<close>

text \<open>
  Claim C4.  In the chain of main the Error Persister is called once when the handler
  leaves at least one recorded error and not at all when it leaves none.  The report
  carries the method, URL, path and client address the request came in with, the request
  identifier (the inbound header, or the generated token when the header is empty) and the
  string gin makes of the recorded errors, which is not empty provided gin's
  \<^verbatim>\<open>String()\<close> of a non-empty error list is not.
\<close>

theorem error_report_iff_errors:
  assumes "\<forall>errs. errs \<noteq> [] \<longrightarrow> eS errs \<noteq> ''''"
  shows "errors_received (snd (pipeline idGen P L eS db A h w)) =
           errors_received w @
           (if Errors (hctx (snd (h (handler_entry idGen db w)))) = [] then []
            else [\<lparr>Stack = Str (eS (Errors (hctx (snd (h (handler_entry idGen db w)))))),
                   Method = Request_Method (gin w), URL = Request_URL (gin w),
                   Path = Request_URL_Path (gin w), IP = ClientIP (gin w),
                   RequestID = (if Header (gin w) ''X-Request-ID'' = '''' then fst (idGen (id_seed w))
                                else Header (gin w) ''X-Request-ID'')\<rparr>]) \<and>
         (Errors (hctx (snd (h (handler_entry idGen db w)))) \<noteq> [] \<longrightarrow>
            eS (Errors (hctx (snd (h (handler_entry idGen db w))))) \<noteq> '''')"
proof -
  let ?I = "Recover panicHandler (ContextMiddleware (constructor db) (persists_logs A) (business h))"
  let ?w = "id_entry idGen w"
  have g: "RequestIdGetter (gin ?w) =
     Returns (if Header (gin w) ''X-Request-ID'' = '''' then fst (idGen (id_seed w))
              else Header (gin w) ''X-Request-ID'')"
    by (rule RequestIdGetter_id_entry)
  have r: "fst (?I ?w) = Returns ()" by (rule inner_fst)
  note errors_rule =
    ErrorPersisterMiddleware_errors_received[where getter = RequestIdGetter and w = ?w and nxt = ?I, OF g r]
  show ?thesis
    unfolding pipeline_eq using assms
    by (simp add: errors_rule inner_errors_received inner_Errors handler_entry_def id_entry_fields)
qed

text \<open>
  The theorem at \<^verbatim>\<open>GetById\<close>, which records one error, and at a handler that records none.
\<close>

theorem error_report_iff_errors_witness:
  "sample_errors_String [''a custom error''] \<noteq> '''' \<and>
   errors_received (snd (main_pipeline (sample_externals False False) sample_idGen quiet_logger
       sample_errors_String 7 (GetById quiet_logger sample_Marshal sample_Sprintf)
       (sample_world ''req-42''))) =
     [\<lparr>Stack = Str (''Error: a custom error'' @ [CHR 0x0A]), Method = ''GET'',
       URL = ''/api/v1/?verbose=1'', Path = ''/api/v1/'', IP = ''10.0.0.7'', RequestID = ''req-42''\<rparr>] \<and>
   errors_received (snd (main_pipeline (sample_externals False False) sample_idGen quiet_logger
       sample_errors_String 7 idle_handler (sample_world ''req-42''))) = []"
proof -
  have w: "errors_received (sample_world ''req-42'') = []"
    "Request_Method (gin (sample_world ''req-42'')) = ''GET''"
    "Request_URL (gin (sample_world ''req-42'')) = ''/api/v1/?verbose=1''"
    "Request_URL_Path (gin (sample_world ''req-42'')) = ''/api/v1/''"
    "ClientIP (gin (sample_world ''req-42'')) = ''10.0.0.7''"
    "Header (gin (sample_world ''req-42'')) ''X-Request-ID'' = ''req-42''"
    by (simp_all add: sample_world_def sample_gin_def)
  have e: "Errors (hctx (handler_entry sample_idGen 7 (sample_world ''req-42''))) = []"
    by (simp add: entry_defs sample_defs)
  show ?thesis
    using error_report_iff_errors[where eS = sample_errors_String and idGen = sample_idGen
        and P = "Errors_Persist (sample_externals False False) quiet_logger \<lparr>FallbackFilePath = ''./errors''\<rparr>"
        and L = quiet_logger and db = 7 and A = "Logs_Persist (sample_externals False False)"
        and h = "GetById quiet_logger sample_Marshal sample_Sprintf"
        and w = "sample_world ''req-42''", OF sample_errors_String_nonempty]
      error_report_iff_errors[where eS = sample_errors_String and idGen = sample_idGen
        and P = "Errors_Persist (sample_externals False False) quiet_logger \<lparr>FallbackFilePath = ''./errors''\<rparr>"
        and L = quiet_logger and db = 7 and A = "Logs_Persist (sample_externals False False)"
        and h = idle_handler
        and w = "sample_world ''req-42''", OF sample_errors_String_nonempty]
    by (simp add: main_pipeline_def w e GetById_at_entry sample_errors_String_nonempty c_Error_def
          idle_handler_def sample_errors_String_def)
qed

subsection \<open>C5: the guard of the error-persistence stage\<close>

text \<open>
  Claim C5.  Provided error-level logging on the base logger returns and the request
  identifier can be read, the error-persistence stage returns to its caller whatever the
  rest of the chain and the persister do.  A panic of the persister is caught and only
  logged: the stage returns, and the one change is an \<^verbatim>\<open>Errorw\<close> record with the panic
  value and the recorded errors.  Around the recovery stage the persistence runs after every
  run of the chain inside, also one that panicked and was recovered there: the persister is
  called once when errors are recorded then.
\<close>

theorem error_persistence_stage_guarded:
  assumes "\<forall>args. lg ''Errorw'' args = Returns ()"
      and "getter (gin w) = Returns rid"
  shows "fst (ErrorPersisterMiddleware persistent lg getter eS nxt w) = Returns () \<and>
         (\<forall>v w1 w2.
            nxt w = (Returns (), w1) \<and> Errors (gin w1) \<noteq> [] \<and> v \<noteq> nil \<and>
            persistent \<lparr>Stack = Str (eS (Errors (gin w1))), Method = Request_Method (gin w),
                         URL = Request_URL (gin w), Path = Request_URL_Path (gin w),
                         IP = ClientIP (gin w), RequestID = rid\<rparr> w1 = (Panics v, w2) \<longrightarrow>
            ErrorPersisterMiddleware persistent lg getter eS nxt w =
              (Returns (),
               w2\<lparr>infra := (infra w2)\<lparr>emitted := emitted (infra w2) @
                 [(''Errorw'', [Str ErrorPersister_message, Str ''error'', v,
                                Str ''stackErrors'', Seq (map Err (Errors (gin w2)))])]\<rparr>\<rparr>)) \<and>
         errors_received (snd (ErrorPersisterMiddleware (persists_errors P) lg getter eS
                                 (Recover panicHandler chain) w)) =
           errors_received (snd (Recover panicHandler chain w)) @
           (if Errors (gin (snd (Recover panicHandler chain w))) = [] then []
            else [\<lparr>Stack = Str (eS (Errors (gin (snd (Recover panicHandler chain w))))),
                   Method = Request_Method (gin w), URL = Request_URL (gin w),
                   Path = Request_URL_Path (gin w), IP = ClientIP (gin w), RequestID = rid\<rparr>])"
proof -
  have 1: "fst (ErrorPersisterMiddleware persistent lg getter eS nxt w) = Returns ()"
    using assms by (intro ErrorPersisterMiddleware_fst[where getter = getter and w = w and rid = rid]) auto
  have 2: "\<forall>v w1 w2.
            nxt w = (Returns (), w1) \<and> Errors (gin w1) \<noteq> [] \<and> v \<noteq> nil \<and>
            persistent \<lparr>Stack = Str (eS (Errors (gin w1))), Method = Request_Method (gin w),
                         URL = Request_URL (gin w), Path = Request_URL_Path (gin w),
                         IP = ClientIP (gin w), RequestID = rid\<rparr> w1 = (Panics v, w2) \<longrightarrow>
            ErrorPersisterMiddleware persistent lg getter eS nxt w =
              (Returns (),
               w2\<lparr>infra := (infra w2)\<lparr>emitted := emitted (infra w2) @
                 [(''Errorw'', [Str ErrorPersister_message, Str ''error'', v,
                                Str ''stackErrors'', Seq (map Err (Errors (gin w2)))])]\<rparr>\<rparr>)"
    using assms
    by (simp add: ErrorPersisterMiddleware_def ErrorPersister_deferred_def call_Log_def Let_def)
  have r: "fst (Recover panicHandler chain w) = Returns ()"
    by (rule Recover_panicHandler_fst)
  note 3 = ErrorPersisterMiddleware_errors_received[where getter = getter and w = w
      and nxt = "Recover panicHandler chain" and rid = rid and P = P and lg = lg and eS = eS,
      OF assms(2) r]
  from 1 2 3 show ?thesis by blast
qed

text \<open>
  The theorem at a handler that panics inside the recovery stage and a persister that
  panics: the stage returns, the persister was called once, and its panic is in the log.
\<close>

theorem error_persistence_stage_guarded_witness:
  "(\<forall>args. panicking_logger ''Errorw'' args = Returns ()) \<and>
   RequestIdGetter (gin (id_entry sample_idGen (sample_world ''req-42''))) = Returns ''req-42'' \<and>
   fst (ErrorPersisterMiddleware (persists_errors exploding_persister) panicking_logger RequestIdGetter
          sample_errors_String
          (Recover panicHandler (business (panicking_handler panicking_logger sample_Marshal sample_Sprintf)))
          (id_entry sample_idGen (sample_world ''req-42''))) = Returns () \<and>
   errors_received (snd (ErrorPersisterMiddleware (persists_errors exploding_persister) panicking_logger
          RequestIdGetter sample_errors_String
          (Recover panicHandler (business (panicking_handler panicking_logger sample_Marshal sample_Sprintf)))
          (id_entry sample_idGen (sample_world ''req-42'')))) =
     [\<lparr>Stack = Str (''Error: a custom error'' @ [CHR 0x0A]), Method = ''GET'',
       URL = ''/api/v1/?verbose=1'', Path = ''/api/v1/'', IP = ''10.0.0.7'', RequestID = ''req-42''\<rparr>] \<and>
   emitted (infra (snd (ErrorPersisterMiddleware (persists_errors exploding_persister) panicking_logger
          RequestIdGetter sample_errors_String
          (Recover panicHandler (business (panicking_handler panicking_logger sample_Marshal sample_Sprintf)))
          (id_entry sample_idGen (sample_world ''req-42''))))) =
     [(''Info'', [Str ''start'']),
      (''Errorw'', [Str ErrorPersister_message, Str ''error'', Str ''persister exploded'',
                    Str ''stackErrors'', Seq [Err ''a custom error'']])]"
proof -
  let ?w = "id_entry sample_idGen (sample_world ''req-42'')"
  let ?chain = "business (panicking_handler panicking_logger sample_Marshal sample_Sprintf)"
  have q: "\<forall>args. panicking_logger ''Errorw'' args = Returns ()"
    by (simp add: panicking_logger_def)
  have g: "RequestIdGetter (gin ?w) = Returns ''req-42''"
    by (simp add: RequestIdGetter_def entry_defs sample_defs)
  have r: "Recover panicHandler ?chain ?w =
     (Returns (),
      ?w\<lparr>gin := (gin ?w)\<lparr>Errors := [''a custom error''],
                           Written := [(500, Dict [(''error'', Str ''internal_server_error''),
                                                (''message'', Str ''An internal error occurred'')])]\<rparr>,
         webLogger_logs := [\<lparr>Level = ''INFO'', Msg = rendered (Seq [Str ''start''])\<rparr>],
         infra := sample_infra\<lparr>emitted := [(''Info'', [Str ''start''])]\<rparr>\<rparr>)"
    by (simp add: Recover_def panicHandler_def business_def handler_view_def panicking_handler_def
          Info_def forward_def call_Log_def appendToLogs_def entry_defs sample_defs)
  have f: "Request_Method (gin ?w) = ''GET''" "Request_URL (gin ?w) = ''/api/v1/?verbose=1''"
    "Request_URL_Path (gin ?w) = ''/api/v1/''" "ClientIP (gin ?w) = ''10.0.0.7''"
    "errors_received ?w = []"
    by (simp_all add: entry_defs sample_defs)
  note t = error_persistence_stage_guarded[where lg = panicking_logger and getter = RequestIdGetter
      and w = ?w and rid = "''req-42''" and persistent = "persists_errors exploding_persister"
      and P = exploding_persister and eS = sample_errors_String
      and nxt = "Recover panicHandler ?chain" and chain = ?chain, OF q g]
  have 1: "fst (ErrorPersisterMiddleware (persists_errors exploding_persister) panicking_logger RequestIdGetter
          sample_errors_String (Recover panicHandler ?chain) ?w) = Returns ()"
    using t[THEN conjunct1] .
  have 2: "errors_received (snd (ErrorPersisterMiddleware (persists_errors exploding_persister) panicking_logger
          RequestIdGetter sample_errors_String (Recover panicHandler ?chain) ?w)) =
     [\<lparr>Stack = Str (''Error: a custom error'' @ [CHR 0x0A]), Method = ''GET'',
       URL = ''/api/v1/?verbose=1'', Path = ''/api/v1/'', IP = ''10.0.0.7'', RequestID = ''req-42''\<rparr>]"
    using t[THEN conjunct2, THEN conjunct2]
    by (simp add: r f sample_errors_String_def)
  let ?w1 = "?w\<lparr>gin := (gin ?w)\<lparr>Errors := [''a custom error''],
                           Written := [(500, Dict [(''error'', Str ''internal_server_error''),
                                                (''message'', Str ''An internal error occurred'')])]\<rparr>,
         webLogger_logs := [\<lparr>Level = ''INFO'', Msg = rendered (Seq [Str ''start''])\<rparr>],
         infra := sample_infra\<lparr>emitted := [(''Info'', [Str ''start''])]\<rparr>\<rparr>"
  let ?rep = "\<lparr>Stack = Str (sample_errors_String (Errors (gin ?w1))), Method = Request_Method (gin ?w),
                URL = Request_URL (gin ?w), Path = Request_URL_Path (gin ?w),
                IP = ClientIP (gin ?w), RequestID = ''req-42''\<rparr>"
  have p: "persists_errors exploding_persister ?rep ?w1 =
             (Panics (Str ''persister exploded''), ?w1\<lparr>errors_received := errors_received ?w1 @ [?rep]\<rparr>)"
    by (simp add: persists_errors_def exploding_persister_def)
  have n: "Errors (gin ?w1) \<noteq> []" "Str ''persister exploded'' \<noteq> nil" by simp_all
  from t[THEN conjunct2, THEN conjunct1, rule_format, of ?w1 "Str ''persister exploded''"
         "?w1\<lparr>errors_received := errors_received ?w1 @ [?rep]\<rparr>"] r n p
  have 3: "emitted (infra (snd (ErrorPersisterMiddleware (persists_errors exploding_persister) panicking_logger
          RequestIdGetter sample_errors_String (Recover panicHandler ?chain) ?w))) =
     [(''Info'', [Str ''start'']),
      (''Errorw'', [Str ErrorPersister_message, Str ''error'', Str ''persister exploded'',
                    Str ''stackErrors'', Seq [Err ''a custom error'']])]"
    by (simp add: sample_infra_def)
  from q g 1 2 3 show ?thesis by blast
qed

subsection \<open>C6: one request identifier\<close>

text \<open>
  Claim C6.  The request identifier is the inbound \<^verbatim>\<open>X-Request-ID\<close> header when that is
  not empty and the generated token otherwise; it is not empty provided the generated token
  is not.  \<^verbatim>\<open>RequestIdGetter\<close> gives this value where the error-persistence, recovery and
  context-injection stages are entered (\<open>id_entry\<close>) and where the handler is entered
  (\<open>handler_entry\<close>, the one state the chain consults the handler in), and it is the
  \<^verbatim>\<open>RequestID\<close> of the report the Error Persister receives.
\<close>

theorem request_id_one_value:
  assumes "fst (idGen (id_seed w)) \<noteq> ''''"
  shows "(let rid = (if Header (gin w) ''X-Request-ID'' = '''' then fst (idGen (id_seed w))
                     else Header (gin w) ''X-Request-ID'')
          in rid \<noteq> '''' \<and>
             RequestIdGetter (gin (id_entry idGen w)) = Returns rid \<and>
             RequestIdGetter (hctx (handler_entry idGen db w)) = Returns rid \<and>
             (\<forall>h'. h' (handler_entry idGen db w) = h (handler_entry idGen db w) \<longrightarrow>
                   pipeline idGen P L eS db A h' w = pipeline idGen P L eS db A h w) \<and>
             map RequestID (errors_received (snd (pipeline idGen P L eS db A h w))) =
               map RequestID (errors_received w) @
               (if Errors (hctx (snd (h (handler_entry idGen db w)))) = [] then [] else [rid]))"
proof -
  let ?rid = "if Header (gin w) ''X-Request-ID'' = '''' then fst (idGen (id_seed w))
              else Header (gin w) ''X-Request-ID''"
  have 1: "?rid \<noteq> ''''" using assms by simp
  have 2: "RequestIdGetter (gin (id_entry idGen w)) = Returns ?rid"
    by (rule RequestIdGetter_id_entry)
  have 3: "RequestIdGetter (hctx (handler_entry idGen db w)) = Returns ?rid"
    by (simp add: handler_entry_def handler_view_def context_entry_def id_entry_def
          RequestIdGetter_def c_Get_def c_Set_def c_GetHeader_def idKey_def webContextKey_def)
  have 4: "\<forall>h'. h' (handler_entry idGen db w) = h (handler_entry idGen db w) \<longrightarrow>
             pipeline idGen P L eS db A h' w = pipeline idGen P L eS db A h w"
    using pipeline_handler_entry by blast
  let ?I = "Recover panicHandler (ContextMiddleware (constructor db) (persists_logs A) (business h))"
  have r: "fst (?I (id_entry idGen w)) = Returns ()"
    by (rule inner_fst)
  have 5: "map RequestID (errors_received (snd (pipeline idGen P L eS db A h w))) =
             map RequestID (errors_received w) @
             (if Errors (hctx (snd (h (handler_entry idGen db w)))) = [] then [] else [?rid])"
    unfolding pipeline_eq
    by (simp add: ErrorPersisterMiddleware_errors_received[where getter = RequestIdGetter
            and w = "id_entry idGen w" and nxt = ?I, OF 2 r]
          inner_errors_received inner_Errors handler_entry_def id_entry_fields)
  from 1 2 3 4 5 show ?thesis unfolding Let_def by blast
qed

text \<open>
  The theorem at a request without the header, and the entry state of a request with it.
\<close>

theorem request_id_one_value_witness:
  "fst (sample_idGen (id_seed (sample_world ''''))) \<noteq> '''' \<and>
   RequestIdGetter (hctx (handler_entry sample_idGen 7 (sample_world ''''))) = Returns ''generated-x'' \<and>
   map RequestID (errors_received (snd (main_pipeline (sample_externals False False) sample_idGen
       quiet_logger sample_errors_String 7 (GetById quiet_logger sample_Marshal sample_Sprintf)
       (sample_world '''')))) = [''generated-x''] \<and>
   RequestIdGetter (hctx (handler_entry sample_idGen 7 (sample_world ''req-42''))) = Returns ''req-42''"
proof -
  have g: "fst (sample_idGen (id_seed (sample_world ''''))) \<noteq> ''''"
    by (simp add: sample_idGen_def)
  have w: "errors_received (sample_world '''') = []"
    "Header (gin (sample_world '''')) ''X-Request-ID'' = ''''"
    "fst (sample_idGen (id_seed (sample_world ''''))) = ''generated-x''"
    by (simp_all add: sample_world_def sample_gin_def sample_idGen_def)
  have r: "RequestIdGetter (hctx (handler_entry sample_idGen 7 (sample_world ''req-42''))) = Returns ''req-42''"
    by (simp add: entry_defs sample_defs RequestIdGetter_def)
  have e: "Errors (hctx (handler_entry sample_idGen 7 (sample_world ''''))) = []"
    by (simp add: entry_defs sample_defs)
  note t = request_id_one_value[where idGen = sample_idGen and w = "sample_world ''''" and db = 7
        and P = "Errors_Persist (sample_externals False False) quiet_logger \<lparr>FallbackFilePath = ''./errors''\<rparr>"
        and L = quiet_logger and eS = sample_errors_String
        and A = "Logs_Persist (sample_externals False False)"
        and h = "GetById quiet_logger sample_Marshal sample_Sprintf", OF g, unfolded Let_def]
  have a: "RequestIdGetter (hctx (handler_entry sample_idGen 7 (sample_world ''''))) = Returns ''generated-x''"
    using t[THEN conjunct2, THEN conjunct2, THEN conjunct1] by (simp add: w)
  have b: "map RequestID (errors_received (snd (main_pipeline (sample_externals False False) sample_idGen
       quiet_logger sample_errors_String 7 (GetById quiet_logger sample_Marshal sample_Sprintf)
       (sample_world '''')))) = [''generated-x'']"
    using t[THEN conjunct2, THEN conjunct2, THEN conjunct2, THEN conjunct2]
    by (simp add: main_pipeline_def w e GetById_at_entry c_Error_def)
  from g a b r show ?thesis by blast
qed

subsection \<open>C7: one record per logging call\<close>

text \<open>
  Claim C7, as amended.  When each of N logging calls made one after the other on a
  fresh Request Log Collector returns, the buffer holds exactly N records, the i-th the
  record of the i-th call, with the level of that call.
\<close>

theorem buffer_has_one_record_per_returned_call:
  assumes "fst (log_all L M S calls \<lparr>inner = emitted0, logs = []\<rparr>) = Returns ()"
  shows "length (logs (snd (log_all L M S calls \<lparr>inner = emitted0, logs = []\<rparr>))) = length calls \<and>
         logs (snd (log_all L M S calls \<lparr>inner = emitted0, logs = []\<rparr>)) = map (record_of M S) calls \<and>
         map Level (logs (snd (log_all L M S calls \<lparr>inner = emitted0, logs = []\<rparr>))) =
           map (\<lambda>c. level_name (level_of c)) calls"
  using log_all_Returns[OF assms] by (simp add: Level_record_of comp_def)

theorem buffer_has_one_record_per_returned_call_witness:
  "fst (log_all quiet_logger sample_Marshal sample_Sprintf
          [Plain INFO (Some [Str ''start'']), Keyed WARN ''slow'' (Some [Str ''ms'', Num 3]),
           Templated ERROR ''x=%v'' (Some [Num 1]), Plain PANIC (Some [Str ''boom'']), Plain DEBUG None]
          \<lparr>inner = [], logs = []\<rparr>) = Returns () \<and>
   map Level (logs (snd (log_all quiet_logger sample_Marshal sample_Sprintf
          [Plain INFO (Some [Str ''start'']), Keyed WARN ''slow'' (Some [Str ''ms'', Num 3]),
           Templated ERROR ''x=%v'' (Some [Num 1]), Plain PANIC (Some [Str ''boom'']), Plain DEBUG None]
          \<lparr>inner = [], logs = []\<rparr>))) = [''INFO'', ''WARN'', ''ERROR'', ''PANIC'', ''DEBUG''] \<and>
   length (logs (snd (log_all quiet_logger sample_Marshal sample_Sprintf
          [Plain INFO (Some [Str ''start'']), Keyed WARN ''slow'' (Some [Str ''ms'', Num 3]),
           Templated ERROR ''x=%v'' (Some [Num 1]), Plain PANIC (Some [Str ''boom'']), Plain DEBUG None]
          \<lparr>inner = [], logs = []\<rparr>))) = 5"
proof -
  have r: "fst (log_all quiet_logger sample_Marshal sample_Sprintf
          [Plain INFO (Some [Str ''start'']), Keyed WARN ''slow'' (Some [Str ''ms'', Num 3]),
           Templated ERROR ''x=%v'' (Some [Num 1]), Plain PANIC (Some [Str ''boom'']), Plain DEBUG None]
          \<lparr>inner = [], logs = []\<rparr>) = Returns ()"
    by (simp add: Info_def Warnw_def Errorf_def Panic_def Debug_def forward_def call_Log_def quiet_logger_def)
  note t = buffer_has_one_record_per_returned_call[OF r]
  have 2: "map Level (logs (snd (log_all quiet_logger sample_Marshal sample_Sprintf
          [Plain INFO (Some [Str ''start'']), Keyed WARN ''slow'' (Some [Str ''ms'', Num 3]),
           Templated ERROR ''x=%v'' (Some [Num 1]), Plain PANIC (Some [Str ''boom'']), Plain DEBUG None]
          \<lparr>inner = [], logs = []\<rparr>))) = [''INFO'', ''WARN'', ''ERROR'', ''PANIC'', ''DEBUG'']"
    using t[THEN conjunct2, THEN conjunct2] by (simp del: log_all.simps)
  have 3: "length (logs (snd (log_all quiet_logger sample_Marshal sample_Sprintf
          [Plain INFO (Some [Str ''start'']), Keyed WARN ''slow'' (Some [Str ''ms'', Num 3]),
           Templated ERROR ''x=%v'' (Some [Num 1]), Plain PANIC (Some [Str ''boom'']), Plain DEBUG None]
          \<lparr>inner = [], logs = []\<rparr>))) = 5"
    using t[THEN conjunct1] by (simp del: log_all.simps)
  from r 2 3 show ?thesis by blast
qed

text \<open>
  Claim C7 as stated fails: a call at panic level panics in the base logger before the
  record is appended, so after \<^verbatim>\<open>Info("start")\<close> and \<^verbatim>\<open>Panic("boom")\<close> the buffer holds one
  record for two calls.
\<close>

theorem buffer_misses_panicking_call:
  "fst (log_all panicking_logger sample_Marshal sample_Sprintf
          [Plain INFO (Some [Str ''start'']), Plain PANIC (Some [Str ''boom''])]
          \<lparr>inner = [], logs = []\<rparr>) = Panics (Str ''boom'') \<and>
   logs (snd (log_all panicking_logger sample_Marshal sample_Sprintf
                [Plain INFO (Some [Str ''start'']), Plain PANIC (Some [Str ''boom''])]
                \<lparr>inner = [], logs = []\<rparr>)) =
     [\<lparr>Level = ''INFO'', Msg = rendered (Seq [Str ''start''])\<rparr>] \<and>
   length (logs (snd (log_all panicking_logger sample_Marshal sample_Sprintf
                        [Plain INFO (Some [Str ''start'']), Plain PANIC (Some [Str ''boom''])]
                        \<lparr>inner = [], logs = []\<rparr>))) \<noteq>
     length [Plain INFO (Some [Str ''start'']), Plain PANIC (Some [Str ''boom''])]"
  by (simp add: Info_def Panic_def forward_def call_Log_def appendToLogs_def panicking_logger_def
        sample_Marshal_def)

subsection \<open>C8: the fallback file\<close>

text \<open>
  Claim C8, as amended.  When the transaction fails, the report serialises, and making
  the directory, opening the file and writing succeed, \<^verbatim>\<open>Persist\<close> returns, the fallback
  directory has been made, and the indented JSON of the report has been written to the one
  path \<^verbatim>\<open>filepath.Join(directory, error_<requestID>_<timestamp>.json)\<close>; no other file
  changes.  When no file was at that path, exactly one file is created, there, and its
  contents are that serialisation; when a file was there, no file is created and the
  serialisation is added after its contents.  The timestamp is \<^verbatim>\<open>time.Now()\<close> in the layout
  \<^verbatim>\<open>20060102T150405.000\<close>, whose last three digits are the milliseconds.  When neither the
  request identifier nor the timestamp holds a path separator, the path is the entry of
  that name in the cleaned fallback directory (with the \<^verbatim>\<open>filepath.Join\<close> of the Go library
  on Unix).
\<close>

theorem fallback_file_created:
  assumes "Transaction_error X (ErrorModel rec) = Some err"
      and "MarshalIndent X rec = Inr js"
      and "MkdirAll_error X (FallbackFilePath e) = None"
      and "OpenFile_error X (Join X (FallbackFilePath e)
             (''error_'' @ RequestID rec @ ''_'' @ Now_Format X ''20060102T150405.000'' @ ''.json'')) = None"
      and "Write_error X (Join X (FallbackFilePath e)
             (''error_'' @ RequestID rec @ ''_'' @ Now_Format X ''20060102T150405.000'' @ ''.json'')) js = None"
  shows "(let name = ''error_'' @ RequestID rec @ ''_'' @ Now_Format X ''20060102T150405.000'' @ ''.json'';
              path = Join X (FallbackFilePath e) name;
              after = snd (Errors_Persist X L e rec s)
          in fst (Errors_Persist X L e rec s) = Returns () \<and>
             FallbackFilePath e \<in> dirs after \<and>
             (\<forall>p. p \<noteq> path \<longrightarrow> files after p = files s p) \<and>
             (files s path = None \<longrightarrow>
                files after path = Some js \<and> dom (files after) = insert path (dom (files s))) \<and>
             (\<forall>old. files s path = Some old \<longrightarrow>
                files after path = Some (old @ js) \<and> dom (files after) = dom (files s)) \<and>
             (Join X = filepath_Join \<and> CHR ''/'' \<notin> set (RequestID rec) \<and>
              CHR ''/'' \<notin> set (Now_Format X ''20060102T150405.000'') \<longrightarrow>
                path = directory_entry (filepath_Clean (FallbackFilePath e)) name))"
proof -
  let ?name = "''error_'' @ RequestID rec @ ''_'' @ Now_Format X ''20060102T150405.000'' @ ''.json''"
  let ?path = "Join X (FallbackFilePath e) ?name"
  have p: "Errors_Persist X L e rec s =
             (Returns (),
              s\<lparr>dirs := insert (FallbackFilePath e) (dirs s),
                files := (files s)(?path \<mapsto>
                           (case files s ?path of None \<Rightarrow> [] | Some old \<Rightarrow> old) @ js)\<rparr>)"
    using assms
    by (auto simp: Errors_Persist_def Transaction_Create_def saveToFile_def os_MkdirAll_def
          os_OpenFile_def f_Write_def fileName_def Let_def split: option.splits)
  have 1: "\<forall>old. files s ?path = Some old \<longrightarrow> insert ?path (dom (files s)) = dom (files s)"
    by auto
  have 2: "Join X = filepath_Join \<and> CHR ''/'' \<notin> set (RequestID rec) \<and>
           CHR ''/'' \<notin> set (Now_Format X ''20060102T150405.000'') \<longrightarrow>
             ?path = directory_entry (filepath_Clean (FallbackFilePath e)) ?name"
  proof (intro impI, elim conjE)
    assume j: "Join X = filepath_Join" and a: "CHR ''/'' \<notin> set (RequestID rec)"
      and b: "CHR ''/'' \<notin> set (Now_Format X ''20060102T150405.000'')"
    from filepath_Join_entry[OF fileName_plain[OF a b]] j
    show "?path = directory_entry (filepath_Clean (FallbackFilePath e)) ?name" by simp
  qed
  from 1 2 show ?thesis
    unfolding Let_def p by simp
qed

text \<open>
  The theorem at the sample report, with no file and with a file at the path: the path
  is \<^verbatim>\<open>errors/error_req-42_20250102T030405.678.json\<close>.
\<close>

theorem fallback_file_created_witness:
  "Transaction_error (sample_externals True False) (ErrorModel sample_report) = Some ''connection refused'' \<and>
   MarshalIndent (sample_externals True False) sample_report = Inr (rendered (Errors_any sample_report)) \<and>
   MkdirAll_error (sample_externals True False) ''./errors'' = None \<and>
   OpenFile_error (sample_externals True False) ''errors/error_req-42_20250102T030405.678.json'' = None \<and>
   Write_error (sample_externals True False) ''errors/error_req-42_20250102T030405.678.json''
     (rendered (Errors_any sample_report)) = None \<and>
   Join (sample_externals True False) = filepath_Join \<and>
   CHR ''/'' \<notin> set (RequestID sample_report) \<and>
   CHR ''/'' \<notin> set (Now_Format (sample_externals True False) ''20060102T150405.000'') \<and>
   Join (sample_externals True False) ''./errors'' ''error_req-42_20250102T030405.678.json'' =
     directory_entry (filepath_Clean ''./errors'') ''error_req-42_20250102T030405.678.json'' \<and>
   directory_entry (filepath_Clean ''./errors'') ''error_req-42_20250102T030405.678.json'' =
     ''errors/error_req-42_20250102T030405.678.json'' \<and>
   files sample_infra ''errors/error_req-42_20250102T030405.678.json'' = None \<and>
   files (snd (Errors_Persist (sample_externals True False) quiet_logger
          \<lparr>FallbackFilePath = ''./errors''\<rparr> sample_report sample_infra)) =
     [''errors/error_req-42_20250102T030405.678.json'' \<mapsto> rendered (Errors_any sample_report)] \<and>
   dom (files (snd (Errors_Persist (sample_externals True False) quiet_logger
          \<lparr>FallbackFilePath = ''./errors''\<rparr> sample_report sample_infra))) =
     {''errors/error_req-42_20250102T030405.678.json''} \<and>
   ''./errors'' \<in> dirs (snd (Errors_Persist (sample_externals True False) quiet_logger
          \<lparr>FallbackFilePath = ''./errors''\<rparr> sample_report sample_infra)) \<and>
   files (sample_infra\<lparr>files := [''errors/error_req-42_20250102T030405.678.json'' \<mapsto> ''old'']\<rparr>)
       ''errors/error_req-42_20250102T030405.678.json'' = Some ''old'' \<and>
   files (snd (Errors_Persist (sample_externals True False) quiet_logger
          \<lparr>FallbackFilePath = ''./errors''\<rparr> sample_report
          (sample_infra\<lparr>files := [''errors/error_req-42_20250102T030405.678.json'' \<mapsto> ''old'']\<rparr>)))
       ''errors/error_req-42_20250102T030405.678.json'' =
     Some (''old'' @ rendered (Errors_any sample_report)) \<and>
   dom (files (snd (Errors_Persist (sample_externals True False) quiet_logger
          \<lparr>FallbackFilePath = ''./errors''\<rparr> sample_report
          (sample_infra\<lparr>files := [''errors/error_req-42_20250102T030405.678.json'' \<mapsto> ''old'']\<rparr>)))) =
     {''errors/error_req-42_20250102T030405.678.json''}"
proof -
  let ?X = "sample_externals True False"
  let ?p = "''errors/error_req-42_20250102T030405.678.json''"
  let ?n = "''error_req-42_20250102T030405.678.json''"
  let ?js = "rendered (Errors_any sample_report)"
  have n: "''error_'' @ RequestID sample_report @ ''_'' @ Now_Format ?X ''20060102T150405.000'' @ ''.json'' = ?n"
    by (simp add: sample_externals_def sample_report_def)
  have j: "Join ?X = filepath_Join"
    by (simp add: sample_externals_def)
  have jp: "Join ?X ''./errors'' ?n = ?p"
    by (simp add: j sample_paths)
  have t: "Transaction_error ?X (ErrorModel sample_report) = Some ''connection refused''"
    by (simp add: sample_externals_def)
  have m: "MarshalIndent ?X sample_report = Inr ?js"
    by (simp add: sample_externals_def sample_Marshal_def Errors_any_def sample_report_def)
  have k: "MkdirAll_error ?X ''./errors'' = None"
    by (simp add: sample_externals_def)
  have k': "MkdirAll_error ?X (FallbackFilePath \<lparr>FallbackFilePath = ''./errors''\<rparr>) = None"
    by (simp add: sample_externals_def)
  have ow: "OpenFile_error ?X ?p = None" "Write_error ?X ?p ?js = None"
    by (simp_all add: sample_externals_def)
  have o': "OpenFile_error ?X (Join ?X (FallbackFilePath \<lparr>FallbackFilePath = ''./errors''\<rparr>)
             (''error_'' @ RequestID sample_report @ ''_'' @ Now_Format ?X ''20060102T150405.000'' @ ''.json'')) = None"
    by (simp add: sample_externals_def)
  have w': "Write_error ?X (Join ?X (FallbackFilePath \<lparr>FallbackFilePath = ''./errors''\<rparr>)
             (''error_'' @ RequestID sample_report @ ''_'' @ Now_Format ?X ''20060102T150405.000'' @ ''.json''))
             ?js = None"
    by (simp add: sample_externals_def)
  have a: "CHR ''/'' \<notin> set (RequestID sample_report)"
    "CHR ''/'' \<notin> set (Now_Format ?X ''20060102T150405.000'')"
    by (simp_all add: sample_externals_def sample_report_def)
  have d: "directory_entry (filepath_Clean ''./errors'') ?n = ?p"
    by (simp add: directory_entry_def filepath_Clean_def clean_step_def)
  have f: "files sample_infra ?p = None" "files sample_infra = Map.empty"
    "files (sample_infra\<lparr>files := [?p \<mapsto> ''old'']\<rparr>) ?p = Some ''old''"
    "dom (files (sample_infra\<lparr>files := [?p \<mapsto> ''old'']\<rparr>)) = {?p}"
    by (simp_all add: sample_infra_def)
  note c = fallback_file_created[where X = ?X and L = quiet_logger
      and e = "\<lparr>FallbackFilePath = ''./errors''\<rparr>" and rec = sample_report,
      OF t m k' o' w', unfolded Let_def n]
  note c1 = c[where s = sample_infra]
  note c2 = c[where s = "sample_infra\<lparr>files := [?p \<mapsto> ''old'']\<rparr>"]
  have 0: "Join ?X ''./errors'' ?n = directory_entry (filepath_Clean ''./errors'') ?n"
    using c1 j a by (simp add: jp)
  have 1: "files (snd (Errors_Persist ?X quiet_logger \<lparr>FallbackFilePath = ''./errors''\<rparr>
             sample_report sample_infra)) = [?p \<mapsto> ?js]"
  proof (rule ext)
    fix x
    show "files (snd (Errors_Persist ?X quiet_logger \<lparr>FallbackFilePath = ''./errors''\<rparr>
             sample_report sample_infra)) x = [?p \<mapsto> ?js] x"
      using c1 f(1,2) by (cases "x = ?p") (simp_all add: jp)
  qed
  have 2: "dom (files (snd (Errors_Persist ?X quiet_logger \<lparr>FallbackFilePath = ''./errors''\<rparr>
             sample_report sample_infra))) = {?p}"
    using c1 f(1,2) by (simp add: jp)
  have 3: "''./errors'' \<in> dirs (snd (Errors_Persist ?X quiet_logger \<lparr>FallbackFilePath = ''./errors''\<rparr>
             sample_report sample_infra))"
    using c1 by simp
  have 4: "files (snd (Errors_Persist ?X quiet_logger \<lparr>FallbackFilePath = ''./errors''\<rparr> sample_report
             (sample_infra\<lparr>files := [?p \<mapsto> ''old'']\<rparr>))) ?p = Some (''old'' @ ?js)"
    using c2 f(3) by (simp add: jp)
  have 5: "dom (files (snd (Errors_Persist ?X quiet_logger \<lparr>FallbackFilePath = ''./errors''\<rparr> sample_report
             (sample_infra\<lparr>files := [?p \<mapsto> ''old'']\<rparr>)))) = {?p}"
    using c2 f(3,4) by (simp add: jp)
  from t m k ow j a 0 d f(1,3) 1 2 3 4 5 show ?thesis by blast
qed

text \<open>
  Claim C8 as stated fails in two ways.  The file is opened for appending, so when a file
  of that name is already there no file is created and the serialisation is added after the
  old contents.  And the request identifier comes from the request: with the header
  \<^verbatim>\<open>X-Request-ID: /../../x\<close> the path is cleaned to \<^verbatim>\<open>x_20250102T030405.678.json\<close>, a file
  of another name in the working directory, not in the fallback directory.
\<close>

theorem fallback_file_appended_to:
  "Transaction_error (sample_externals True False) (ErrorModel sample_report) = Some ''connection refused'' \<and>
   fst (saveToFile (sample_externals True False) \<lparr>FallbackFilePath = ''./errors''\<rparr> sample_report
          (sample_infra\<lparr>files := [''errors/error_req-42_20250102T030405.678.json'' \<mapsto> ''old'']\<rparr>)) = None \<and>
   MarshalIndent (sample_externals True False) sample_report = Inr (rendered (Errors_any sample_report)) \<and>
   files (snd (Errors_Persist (sample_externals True False) quiet_logger
          \<lparr>FallbackFilePath = ''./errors''\<rparr> sample_report
          (sample_infra\<lparr>files := [''errors/error_req-42_20250102T030405.678.json'' \<mapsto> ''old'']\<rparr>)))
       ''errors/error_req-42_20250102T030405.678.json'' =
     Some (''old'' @ rendered (Errors_any sample_report)) \<and>
   files (snd (Errors_Persist (sample_externals True False) quiet_logger
          \<lparr>FallbackFilePath = ''./errors''\<rparr> sample_report
          (sample_infra\<lparr>files := [''errors/error_req-42_20250102T030405.678.json'' \<mapsto> ''old'']\<rparr>)))
       ''errors/error_req-42_20250102T030405.678.json'' \<noteq>
     Some (rendered (Errors_any sample_report)) \<and>
   dom (files (snd (Errors_Persist (sample_externals True False) quiet_logger
          \<lparr>FallbackFilePath = ''./errors''\<rparr> sample_report
          (sample_infra\<lparr>files := [''errors/error_req-42_20250102T030405.678.json'' \<mapsto> ''old'']\<rparr>)))) =
     dom [''errors/error_req-42_20250102T030405.678.json'' \<mapsto> ''old''] \<and>
   RequestID traversing_report = ''/../../x'' \<and>
   Transaction_error (sample_externals True False) (ErrorModel traversing_report) = Some ''connection refused'' \<and>
   fst (saveToFile (sample_externals True False) \<lparr>FallbackFilePath = ''./errors''\<rparr> traversing_report
          sample_infra) = None \<and>
   MarshalIndent (sample_externals True False) traversing_report = Inr (rendered (Errors_any traversing_report)) \<and>
   files (snd (Errors_Persist (sample_externals True False) quiet_logger
          \<lparr>FallbackFilePath = ''./errors''\<rparr> traversing_report sample_infra)) =
     [''x_20250102T030405.678.json'' \<mapsto> rendered (Errors_any traversing_report)] \<and>
   ''x_20250102T030405.678.json'' \<noteq> ''errors/error_/../../x_20250102T030405.678.json'' \<and>
   take 7 ''x_20250102T030405.678.json'' \<noteq> ''errors/''"
proof -
  have 1: "Transaction_error (sample_externals True False) (ErrorModel sample_report) = Some ''connection refused'' \<and>
   fst (saveToFile (sample_externals True False) \<lparr>FallbackFilePath = ''./errors''\<rparr> sample_report
          (sample_infra\<lparr>files := [''errors/error_req-42_20250102T030405.678.json'' \<mapsto> ''old'']\<rparr>)) = None \<and>
   MarshalIndent (sample_externals True False) sample_report = Inr (rendered (Errors_any sample_report)) \<and>
   files (snd (Errors_Persist (sample_externals True False) quiet_logger
          \<lparr>FallbackFilePath = ''./errors''\<rparr> sample_report
          (sample_infra\<lparr>files := [''errors/error_req-42_20250102T030405.678.json'' \<mapsto> ''old'']\<rparr>)))
       ''errors/error_req-42_20250102T030405.678.json'' =
     Some (''old'' @ rendered (Errors_any sample_report)) \<and>
   files (snd (Errors_Persist (sample_externals True False) quiet_logger
          \<lparr>FallbackFilePath = ''./errors''\<rparr> sample_report
          (sample_infra\<lparr>files := [''errors/error_req-42_20250102T030405.678.json'' \<mapsto> ''old'']\<rparr>)))
       ''errors/error_req-42_20250102T030405.678.json'' \<noteq>
     Some (rendered (Errors_any sample_report)) \<and>
   dom (files (snd (Errors_Persist (sample_externals True False) quiet_logger
          \<lparr>FallbackFilePath = ''./errors''\<rparr> sample_report
          (sample_infra\<lparr>files := [''errors/error_req-42_20250102T030405.678.json'' \<mapsto> ''old'']\<rparr>)))) =
     dom [''errors/error_req-42_20250102T030405.678.json'' \<mapsto> ''old'']"
    by (simp add: persister_defs sample_defs sample_paths)
  have 2: "RequestID traversing_report = ''/../../x'' \<and>
   Transaction_error (sample_externals True False) (ErrorModel traversing_report) = Some ''connection refused'' \<and>
   fst (saveToFile (sample_externals True False) \<lparr>FallbackFilePath = ''./errors''\<rparr> traversing_report
          sample_infra) = None \<and>
   MarshalIndent (sample_externals True False) traversing_report = Inr (rendered (Errors_any traversing_report)) \<and>
   files (snd (Errors_Persist (sample_externals True False) quiet_logger
          \<lparr>FallbackFilePath = ''./errors''\<rparr> traversing_report sample_infra)) =
     [''x_20250102T030405.678.json'' \<mapsto> rendered (Errors_any traversing_report)]"
    by (simp add: persister_defs sample_defs traversing_report_def sample_paths)
  have 3: "''x_20250102T030405.678.json'' \<noteq> ''errors/error_/../../x_20250102T030405.678.json'' \<and>
   take 7 ''x_20250102T030405.678.json'' \<noteq> ''errors/''"
    by simp
  from 1 2 3 show ?thesis by blast
qed

subsection \<open>C9: the buffered message of the format and keyed variants\<close>

text \<open>
  Claim C9, as amended.  For a call of a format-string or keyed-pairs variant that
  returns, exactly one record is appended, with the level of the variant.  Its message is
  the serialisation \<^verbatim>\<open>json.Marshal\<close> gives of the two-element sequence of the template (or
  message) and the slice of the variadic arguments, whenever that serialisation succeeds;
  the slice of a call without variadic arguments is the nil slice (\<^verbatim>\<open>null\<close> in JSON), that
  of a call with arguments the slice of them.  When the serialisation fails, the message is
  what \<^verbatim>\<open>fmt.Sprintf\<close> makes of the fallback format, the serialisation error and that
  two-element sequence.  In both cases the message does not depend on the base logger.
\<close>

theorem buffered_message_is_json_of_pair:
  assumes "c = Templated lv t args \<or> c = Keyed lv t args"
      and "fst (invoke L M S c w) = Returns ()"
  shows "(\<forall>js. M (Seq [Str t, slice_value args]) = Inr js \<longrightarrow>
            logs (snd (invoke L M S c w)) = logs w @ [\<lparr>Level = level_name lv, Msg = js\<rparr>]) \<and>
         (\<forall>err. M (Seq [Str t, slice_value args]) = Inl err \<longrightarrow>
            logs (snd (invoke L M S c w)) =
              logs w @ [\<lparr>Level = level_name lv,
                         Msg = S serialize_error_format [Err err, Seq [Str t, slice_value args]]\<rparr>]) \<and>
         slice_value None = NilSlice \<and> (\<forall>xs. slice_value (Some xs) = Seq xs)"
  using assms
  by (cases lv)
     (auto simp: webLog_methods forward_cases logs_appendToLogs split: outcome.splits)

text \<open>
  The theorem at \<^verbatim>\<open>Infow("GetById", "id", 1)\<close>, at \<^verbatim>\<open>Warnf("hello")\<close>, whose slice is
  nil, and at a call with an argument that cannot be serialised.
\<close>

theorem buffered_message_is_json_of_pair_witness:
  "fst (invoke quiet_logger sample_Marshal sample_Sprintf
          (Keyed INFO ''GetById'' (Some [Str ''id'', Num 1])) \<lparr>inner = [], logs = []\<rparr>) = Returns () \<and>
   sample_Marshal (Seq [Str ''GetById'', Seq [Str ''id'', Num 1]]) =
     Inr (rendered (Seq [Str ''GetById'', Seq [Str ''id'', Num 1]])) \<and>
   logs (snd (invoke quiet_logger sample_Marshal sample_Sprintf
          (Keyed INFO ''GetById'' (Some [Str ''id'', Num 1])) \<lparr>inner = [], logs = []\<rparr>)) =
     [\<lparr>Level = ''INFO'', Msg = rendered (Seq [Str ''GetById'', Seq [Str ''id'', Num 1]])\<rparr>] \<and>
   fst (invoke quiet_logger sample_Marshal sample_Sprintf
          (Templated WARN ''hello'' None) \<lparr>inner = [], logs = []\<rparr>) = Returns () \<and>
   sample_Marshal (Seq [Str ''hello'', NilSlice]) = Inr (rendered (Seq [Str ''hello'', NilSlice])) \<and>
   logs (snd (invoke quiet_logger sample_Marshal sample_Sprintf
          (Templated WARN ''hello'' None) \<lparr>inner = [], logs = []\<rparr>)) =
     [\<lparr>Level = ''WARN'', Msg = rendered (Seq [Str ''hello'', NilSlice])\<rparr>] \<and>
   rendered (Seq [Str ''hello'', NilSlice]) \<noteq> rendered (Seq [Str ''hello'', Seq []]) \<and>
   fst (invoke quiet_logger sample_Marshal sample_Sprintf
          (Templated ERROR ''x=%v'' (Some [Unsupported 0])) \<lparr>inner = [], logs = []\<rparr>) = Returns () \<and>
   sample_Marshal (Seq [Str ''x=%v'', Seq [Unsupported 0]]) = Inl ''json: unsupported type'' \<and>
   logs (snd (invoke quiet_logger sample_Marshal sample_Sprintf
          (Templated ERROR ''x=%v'' (Some [Unsupported 0])) \<lparr>inner = [], logs = []\<rparr>)) =
     [\<lparr>Level = ''ERROR'',
       Msg = sample_Sprintf serialize_error_format
               [Err ''json: unsupported type'', Seq [Str ''x=%v'', Seq [Unsupported 0]]]\<rparr>]"
proof -
  let ?k = "Keyed INFO ''GetById'' (Some [Str ''id'', Num 1])"
  let ?n = "Templated WARN ''hello'' None"
  let ?u = "Templated ERROR ''x=%v'' (Some [Unsupported 0])"
  let ?w = "\<lparr>inner = [], logs = []\<rparr>"
  have r: "fst (invoke quiet_logger sample_Marshal sample_Sprintf ?k ?w) = Returns ()"
    "fst (invoke quiet_logger sample_Marshal sample_Sprintf ?n ?w) = Returns ()"
    "fst (invoke quiet_logger sample_Marshal sample_Sprintf ?u ?w) = Returns ()"
    by (simp_all add: Infow_def Warnf_def Errorf_def forward_def call_Log_def quiet_logger_def)
  have m: "sample_Marshal (Seq [Str ''GetById'', Seq [Str ''id'', Num 1]]) =
             Inr (rendered (Seq [Str ''GetById'', Seq [Str ''id'', Num 1]]))"
    "sample_Marshal (Seq [Str ''hello'', NilSlice]) = Inr (rendered (Seq [Str ''hello'', NilSlice]))"
    "sample_Marshal (Seq [Str ''x=%v'', Seq [Unsupported 0]]) = Inl ''json: unsupported type''"
    by (simp_all add: sample_Marshal_def)
  have d: "rendered (Seq [Str ''hello'', NilSlice]) \<noteq> rendered (Seq [Str ''hello'', Seq []])"
    by simp
  have ck: "?k = Templated INFO ''GetById'' (Some [Str ''id'', Num 1]) \<or> ?k = ?k" by simp
  have cn: "?n = ?n \<or> ?n = Keyed WARN ''hello'' None" by simp
  have cu: "?u = ?u \<or> ?u = Keyed ERROR ''x=%v'' (Some [Unsupported 0])" by simp
  have 1: "logs (snd (invoke quiet_logger sample_Marshal sample_Sprintf ?k ?w)) =
     [\<lparr>Level = ''INFO'', Msg = rendered (Seq [Str ''GetById'', Seq [Str ''id'', Num 1]])\<rparr>]"
    using buffered_message_is_json_of_pair[OF ck r(1), THEN conjunct1] m(1)
    by (simp del: invoke.simps)
  have 2: "logs (snd (invoke quiet_logger sample_Marshal sample_Sprintf ?n ?w)) =
     [\<lparr>Level = ''WARN'', Msg = rendered (Seq [Str ''hello'', NilSlice])\<rparr>]"
    using buffered_message_is_json_of_pair[OF cn r(2), THEN conjunct1] m(2)
    by (simp del: invoke.simps)
  have 3: "logs (snd (invoke quiet_logger sample_Marshal sample_Sprintf ?u ?w)) =
     [\<lparr>Level = ''ERROR'',
       Msg = sample_Sprintf serialize_error_format
               [Err ''json: unsupported type'', Seq [Str ''x=%v'', Seq [Unsupported 0]]]\<rparr>]"
    using buffered_message_is_json_of_pair[OF cu r(3), THEN conjunct2, THEN conjunct1] m(3)
    by (simp del: invoke.simps)
  from r m d 1 2 3 show ?thesis by blast
qed

text \<open>
  Claim C9 as stated fails: when an argument cannot be serialised the message is the
  fallback text made by \<^verbatim>\<open>fmt.Sprintf\<close>, not a JSON serialisation.
\<close>

theorem buffered_message_not_json_when_unsupported:
  "fst (invoke quiet_logger sample_Marshal sample_Sprintf
          (Templated INFO ''x=%v'' (Some [Unsupported 0])) \<lparr>inner = [], logs = []\<rparr>) = Returns () \<and>
   sample_Marshal (Seq [Str ''x=%v'', Seq [Unsupported 0]]) = Inl ''json: unsupported type'' \<and>
   map Msg (logs (snd (invoke quiet_logger sample_Marshal sample_Sprintf
          (Templated INFO ''x=%v'' (Some [Unsupported 0])) \<lparr>inner = [], logs = []\<rparr>))) =
     [sample_Sprintf serialize_error_format
        [Err ''json: unsupported type'', Seq [Str ''x=%v'', Seq [Unsupported 0]]]] \<and>
   sample_Marshal (Seq [Str ''x=%v'', Seq [Unsupported 0]]) \<noteq>
     Inr (Msg (last (logs (snd (invoke quiet_logger sample_Marshal sample_Sprintf
          (Templated INFO ''x=%v'' (Some [Unsupported 0])) \<lparr>inner = [], logs = []\<rparr>)))))"
  by (simp add: Infof_def forward_def call_Log_def appendToLogs_def quiet_logger_def
        sample_Marshal_def)

subsection \<open>C10: the context slot after the stage\<close>

text \<open>
  Claim C10.  When the context-injection stage is left, by a return or by a panic of
  the rest of the chain or of the persister, the slot holds nil and the typed lookup
  answers not found.  The lookup answers not found, and never panics, for every context
  whose slot is absent or holds a value that is not a \<^verbatim>\<open>*Context\<close>.
\<close>

theorem context_slot_cleared:
  "Keys (gin (snd (ContextMiddleware ctor (persists_logs P) nxt w))) webContextKey = Some nil \<and>
   ContextMiddlewareGetter (gin (snd (ContextMiddleware ctor (persists_logs P) nxt w))) = (None, False) \<and>
   (Keys c webContextKey = None \<longrightarrow> ContextMiddlewareGetter c = (None, False)) \<and>
   (\<forall>v. Keys c webContextKey = Some v \<and> (\<forall>p. v \<noteq> ContextPtr p) \<longrightarrow>
        ContextMiddlewareGetter c = (None, False))"
proof -
  have 1: "Keys (gin (snd (ContextMiddleware ctor (persists_logs P) nxt w))) webContextKey = Some nil"
    by (simp add: ContextMiddleware_eq Let_def c_Set_def)
  then have 2: "ContextMiddlewareGetter (gin (snd (ContextMiddleware ctor (persists_logs P) nxt w))) = (None, False)"
    by (simp add: ContextMiddlewareGetter_def c_Get_def)
  have 3: "Keys c webContextKey = None \<longrightarrow> ContextMiddlewareGetter c = (None, False)"
    by (simp add: ContextMiddlewareGetter_def c_Get_def)
  have 4: "\<forall>v. Keys c webContextKey = Some v \<and> (\<forall>p. v \<noteq> ContextPtr p) \<longrightarrow>
        ContextMiddlewareGetter c = (None, False)"
    by (auto simp: ContextMiddlewareGetter_def c_Get_def split: any.splits)
  from 1 2 3 4 show ?thesis by blast
qed

theorem context_slot_cleared_witness:
  "ContextMiddlewareGetter (gin (snd (ContextMiddleware (constructor 7)
       (persists_logs (Logs_Persist (sample_externals True False)))
       (business (panicking_handler quiet_logger sample_Marshal sample_Sprintf))
       (sample_world ''req-42'')))) = (None, False) \<and>
   Keys (sample_gin ''req-42'') webContextKey = None \<and>
   ContextMiddlewareGetter (sample_gin ''req-42'') = (None, False) \<and>
   Keys (c_Set webContextKey (Str ''not a context'') (sample_gin ''req-42'')) webContextKey =
     Some (Str ''not a context'') \<and>
   ContextMiddlewareGetter (c_Set webContextKey (Str ''not a context'') (sample_gin ''req-42'')) =
     (None, False)"
proof -
  have a: "Keys (sample_gin ''req-42'') webContextKey = None"
    by (simp add: sample_gin_def)
  have b: "Keys (c_Set webContextKey (Str ''not a context'') (sample_gin ''req-42'')) webContextKey =
     Some (Str ''not a context'') \<and> (\<forall>p. Str ''not a context'' \<noteq> ContextPtr p)"
    by (simp add: c_Set_def)
  note 1 = context_slot_cleared[where ctor = "constructor 7"
      and P = "Logs_Persist (sample_externals True False)"
      and nxt = "business (panicking_handler quiet_logger sample_Marshal sample_Sprintf)"
      and w = "sample_world ''req-42''" and c = "sample_gin ''req-42''"]
  note 2 = context_slot_cleared[where ctor = "constructor 7"
      and P = "Logs_Persist (sample_externals True False)"
      and nxt = "business (panicking_handler quiet_logger sample_Marshal sample_Sprintf)"
      and w = "sample_world ''req-42''"
      and c = "c_Set webContextKey (Str ''not a context'') (sample_gin ''req-42'')"]
  from 1 2 a b show ?thesis by blast
qed

end
